theory Spec2Isabelle
  imports Complex_Main "HOL-Library.Multiset"
begin

section \<open>Values, series and frames\<close>

text \<open>
  The pipeline of \<^verbatim>\<open>backend/xgboost_fraud.py\<close> (and its siblings for the other
  classifier families) works on pandas frames of numeric columns. A floating-point cell
  is modelled as an exact rational, a missing cell (NaN) as \<open>None\<close>. Exceptions are
  values of the type \<open>error\<close>; a function that can raise returns \<open>error + 'a\<close>.
\<close>

datatype error =
    KeyError string
  | ValueError string
  | NotFittedError
  | LibraryError string

type_synonym cell = "rat option"
type_synonym series = "cell list"

text \<open>
  A frame is its row index and its columns in order, every column as long as the index.
  \<^verbatim>\<open>df[c]\<close> is \<open>column df c\<close>: a missing name raises KeyError.
\<close>

record frame =
  index :: "nat list"
  cols :: "(string \<times> series) list"

definition nrows :: "frame \<Rightarrow> nat" where
  "nrows df = length (index df)"

definition columns :: "frame \<Rightarrow> string list" where
  "columns df = map fst (cols df)"


definition column :: "frame \<Rightarrow> string \<Rightarrow> error + series" where
  "column df c = (case map_of (cols df) c of None \<Rightarrow> Inl (KeyError c) | Some s \<Rightarrow> Inr s)"

text \<open>The rows of a frame, each with its index label and its named cells.\<close>

type_synonym row = "nat \<times> (string \<times> cell) list"

definition row_at :: "frame \<Rightarrow> nat \<Rightarrow> row" where
  "row_at df i = (index df ! i, map (\<lambda>cs. (fst cs, snd cs ! i)) (cols df))"

definition rows :: "frame \<Rightarrow> row list" where
  "rows df = map (row_at df) [0..<nrows df]"

text \<open>Boolean indexing \<^verbatim>\<open>df.loc[mask]\<close>: the positions where the mask holds.\<close>

definition select :: "bool list \<Rightarrow> 'a list \<Rightarrow> 'a list" where
  "select m xs = map snd (filter fst (zip m xs))"

definition loc_mask :: "frame \<Rightarrow> bool list \<Rightarrow> frame" where
  "loc_mask df m =
     \<lparr>index = select m (index df),
      cols = map (\<lambda>cs. (fst cs, select m (snd cs))) (cols df)\<rparr>"

subsection \<open>Series operations\<close>

definition dropna :: "series \<Rightarrow> rat list" where
  "dropna s = concat (map (\<lambda>c. case c of None \<Rightarrow> [] | Some v \<Rightarrow> [v]) s)"

definition isna :: "series \<Rightarrow> bool list" where
  "isna s = map (\<lambda>c. c = None) s"

text \<open>
  \<^verbatim>\<open>Series.quantile(q)\<close> with the default linear interpolation: missing cells are
  skipped, the result is NaN when nothing is left, and \<open>q\<close> outside \<open>[0, 1]\<close> raises.
\<close>

definition quantile :: "series \<Rightarrow> rat \<Rightarrow> error + cell" where
  "quantile s q =
     (if q < 0 \<or> 1 < q then Inl (ValueError ''percentiles should all be in the interval [0, 1]'')
      else let vs = sort (dropna s); n = length vs in
        if n = 0 then Inr None
        else let pos = of_nat (n - 1) * q;
                 lo = nat \<lfloor>pos\<rfloor>;
                 hi = min (lo + 1) (n - 1);
                 frac = pos - of_nat lo
             in Inr (Some (vs ! lo + (vs ! hi - vs ! lo) * frac)))"

text \<open>Arithmetic on cells: NaN propagates.\<close>

definition cell_add :: "cell \<Rightarrow> cell \<Rightarrow> cell" where
  "cell_add a b = (case (a, b) of (Some x, Some y) \<Rightarrow> Some (x + y) | _ \<Rightarrow> None)"

definition cell_sub :: "cell \<Rightarrow> cell \<Rightarrow> cell" where
  "cell_sub a b = (case (a, b) of (Some x, Some y) \<Rightarrow> Some (x - y) | _ \<Rightarrow> None)"

definition cell_scale :: "rat \<Rightarrow> cell \<Rightarrow> cell" where
  "cell_scale k a = (case a of Some x \<Rightarrow> Some (k * x) | None \<Rightarrow> None)"

text \<open>Comparisons with NaN on either side are false.\<close>

definition cell_le :: "cell \<Rightarrow> cell \<Rightarrow> bool" where
  "cell_le a b = (case (a, b) of (Some x, Some y) \<Rightarrow> x \<le> y | _ \<Rightarrow> False)"

definition between :: "series \<Rightarrow> cell \<Rightarrow> cell \<Rightarrow> bool list" where
  "between s low high = map (\<lambda>c. cell_le low c \<and> cell_le c high) s"

section \<open>The outlier filter\<close>

text \<open>
  \<^verbatim>\<open>
  def iqr_clip(df, cols, k=1.5):
      keep_mask = pd.Series(True, index=df.index)
      for c in cols:
          q1 = df[c].quantile(0.25)
          q3 = df[c].quantile(0.75)
          iqr = q3 - q1
          low = q1 - k * iqr
          high = q3 + k * iqr
          keep_mask &= df[c].between(low, high) | df[c].isna()
      return df.loc[keep_mask].copy()
  \<close>
  The loop over the columns is \<open>iqr_mask\<close>, with the mask as its accumulator.
\<close>

fun iqr_mask :: "frame \<Rightarrow> string list \<Rightarrow> rat \<Rightarrow> bool list \<Rightarrow> error + bool list" where
  "iqr_mask df [] k keep_mask = Inr keep_mask"
| "iqr_mask df (c # cs) k keep_mask =
     (case column df c of
        Inl e \<Rightarrow> Inl e
      | Inr s \<Rightarrow>
          (case quantile s (1/4) of
             Inl e \<Rightarrow> Inl e
           | Inr q1 \<Rightarrow>
               (case quantile s (3/4) of
                  Inl e \<Rightarrow> Inl e
                | Inr q3 \<Rightarrow>
                    let iqr = cell_sub q3 q1;
                        low = cell_sub q1 (cell_scale k iqr);
                        high = cell_add q3 (cell_scale k iqr)
                    in iqr_mask df cs k
                         (map2 (\<and>) keep_mask (map2 (\<or>) (between s low high) (isna s))))))"

definition iqr_clip :: "frame \<Rightarrow> string list \<Rightarrow> rat \<Rightarrow> error + frame" where
  "iqr_clip df cs k =
     (case iqr_mask df cs k (replicate (nrows df) True) of
        Inl e \<Rightarrow> Inl e
      | Inr keep_mask \<Rightarrow> Inr (loc_mask df keep_mask))"




section \<open>The engineered frequency flag\<close>






section \<open>Errors in sequence, strings, the metrics record\<close>

text \<open>A raise ends the computation: the rest runs only on \<open>Inr\<close>.\<close>

definition bnd :: "error + 'a \<Rightarrow> ('a \<Rightarrow> error + 'b) \<Rightarrow> error + 'b" where
  "bnd r f = (case r of Inl e \<Rightarrow> Inl e | Inr x \<Rightarrow> f x)"

text \<open>
  \<^verbatim>\<open>str.lower()\<close> on strings of code points below 256 (a \<open>char\<close> is one such code
  point): the letters A to Z and the Latin-1 capitals move up by 32.
\<close>

definition lower_char :: "char \<Rightarrow> char" where
  "lower_char c =
     (let n = (of_char c :: nat) in
      if (65 \<le> n \<and> n \<le> 90) \<or> (192 \<le> n \<and> n \<le> 222 \<and> n \<noteq> 215)
      then char_of (n + 32) else c)"

definition lower :: "string \<Rightarrow> string" where
  "lower s = map lower_char s"

text \<open>\<^verbatim>\<open>sub in s\<close> for strings.\<close>

fun starts_with :: "string \<Rightarrow> string \<Rightarrow> bool" where
  "starts_with s [] = True"
| "starts_with [] (c # sub) = False"
| "starts_with (d # s) (c # sub) = (d = c \<and> starts_with s sub)"

fun contains :: "string \<Rightarrow> string \<Rightarrow> bool" where
  "contains [] sub = (sub = [])"
| "contains (d # s) sub = (starts_with (d # s) sub \<or> contains s sub)"

text \<open>
  The metrics of a run are a Python dict from field names to scores, counts, strings and
  the two diagnostics. The dict is an association list in insertion order;
  \<^verbatim>\<open>metrics[k] = v\<close> is \<open>dict_set\<close>.
\<close>

record event =
  ev_address :: string
  ev_status :: string
  ev_confidence :: rat
  ev_time :: string

datatype mval =
    MFloat cell
  | MInt int
  | MStr string
  | MRanking "(string \<times> rat) list"
  | MEvents "event list"
  | MParams "(string \<times> rat) list"

type_synonym metrics = "(string \<times> mval) list"

definition dict_set :: "metrics \<Rightarrow> string \<Rightarrow> mval \<Rightarrow> metrics" where
  "dict_set d k v =
     (if k \<in> fst ` set d then map (\<lambda>kv. if fst kv = k then (k, v) else kv) d
      else d @ [(k, v)])"

definition dict_get :: "metrics \<Rightarrow> string \<Rightarrow> mval option" where
  "dict_get d k = map_of d k"

section \<open>The preprocessor\<close>

text \<open>
  \<^verbatim>\<open>
  pre = ColumnTransformer(
      transformers=[('num', StandardScaler(with_mean=True, with_std=True), list(X.columns))],
      remainder='drop')
  \<close>
  The transformer is an object that \<^verbatim>\<open>fit_transform\<close> fills with the mean and the
  scale of every listed column and that \<^verbatim>\<open>transform\<close> only reads. Its state is a
  \<open>scaler option\<close>, \<open>None\<close> before the first fit. The scale is the square root of the
  population variance, 1 where that is 0; the floating-point square root is the
  parameter \<open>fsqrt\<close>.
\<close>

type_synonym matrix = "cell list list"

record scaler =
  feature_names :: "string list"
  means :: "cell list"
  scales :: "cell list"

definition series_mean :: "series \<Rightarrow> cell" where
  "series_mean s =
     (let vs = dropna s in
      if vs = [] then None else Some (sum_list vs / of_nat (length vs)))"

definition series_var :: "series \<Rightarrow> cell" where
  "series_var s =
     (case series_mean s of
        None \<Rightarrow> None
      | Some m \<Rightarrow>
          let vs = dropna s in
          Some (sum_list (map (\<lambda>v. (v - m) * (v - m)) vs) / of_nat (length vs)))"

definition series_scale :: "(rat \<Rightarrow> rat) \<Rightarrow> series \<Rightarrow> cell" where
  "series_scale fsqrt s =
     (case series_var s of
        None \<Rightarrow> None
      | Some v \<Rightarrow> let sd = fsqrt v in Some (if sd = 0 then 1 else sd))"

definition standardize :: "cell \<Rightarrow> cell \<Rightarrow> cell \<Rightarrow> cell" where
  "standardize m sc x =
     (case (m, sc, x) of
        (Some m', Some sc', Some x') \<Rightarrow> Some ((x' - m') / sc')
      | _ \<Rightarrow> None)"

text \<open>Selecting the listed columns of a frame: a missing one raises.\<close>

fun select_columns :: "frame \<Rightarrow> string list \<Rightarrow> error + series list" where
  "select_columns df [] = Inr []"
| "select_columns df (c # cs) =
     (case map_of (cols df) c of
        None \<Rightarrow> Inl (ValueError ''columns are missing'')
      | Some s \<Rightarrow> bnd (select_columns df cs) (\<lambda>ss. Inr (s # ss)))"

definition to_rows :: "nat \<Rightarrow> series list \<Rightarrow> matrix" where
  "to_rows n ss = map (\<lambda>i. map (\<lambda>s. s ! i) ss) [0..<n]"

definition scale_columns :: "scaler \<Rightarrow> series list \<Rightarrow> series list" where
  "scale_columns sc ss =
     map (\<lambda>(m, d, s). map (standardize m d) s) (zip (means sc) (zip (scales sc) ss))"

definition pre_fit_transform ::
  "(rat \<Rightarrow> rat) \<Rightarrow> string list \<Rightarrow> frame \<Rightarrow> error + (scaler \<times> matrix)" where
  "pre_fit_transform fsqrt names X =
     bnd (select_columns X names) (\<lambda>ss.
       if nrows X = 0 then Inl (ValueError ''Found array with 0 sample(s)'')
       else
         let sc = \<lparr>feature_names = names,
                    means = map series_mean ss,
                    scales = map (series_scale fsqrt) ss\<rparr>
         in Inr (sc, to_rows (nrows X) (scale_columns sc ss)))"

definition pre_transform :: "scaler option \<Rightarrow> frame \<Rightarrow> error + matrix" where
  "pre_transform pre X =
     (case pre of
        None \<Rightarrow> Inl NotFittedError
      | Some sc \<Rightarrow>
          bnd (select_columns X (feature_names sc)) (\<lambda>ss.
            if nrows X = 0 then Inl (ValueError ''Found array with 0 sample(s)'')
            else Inr (to_rows (nrows X) (scale_columns sc ss))))"

section \<open>The class balancer\<close>

text \<open>
  Modelled from the spec: the oversampler \<^verbatim>\<open>SMOTE(random_state=seed).fit_resample\<close>
  that every \<^verbatim>\<open>fit_and_eval\<close> calls is the imbalanced-learn library's and not code of
  this repository. Section 4.5 of the specification gives its algorithm: for each
  minority-class sample, locate its k nearest same-class neighbours and generate synthetic samples by
  linear interpolation between the sample and a randomly chosen neighbour at a random
  ratio in \<open>[0, 1]\<close>, until minority and majority counts are equal. The code uses the
  library's defaults (\<open>k = 5\<close>, every class but the largest is filled up to the size of
  the largest). The library's input checks are part of the model: it refuses missing
  values, a target with a single class, and a class to fill that has fewer than
  \<open>k + 1\<close> samples. The neighbour search and the random draws are the fields of
  \<open>sampler\<close>.
\<close>

record sampler =
  k_neighbors :: nat
  neighbor :: "matrix \<Rightarrow> nat \<Rightarrow> nat \<Rightarrow> cell list"
  draw :: "nat \<Rightarrow> nat \<Rightarrow> nat \<times> rat"

definition interpolate :: "cell list \<Rightarrow> cell list \<Rightarrow> rat \<Rightarrow> cell list" where
  "interpolate x nb step = map2 (\<lambda>a b. cell_add a (cell_scale step (cell_sub b a))) x nb"

definition make_samples :: "sampler \<Rightarrow> matrix \<Rightarrow> nat \<Rightarrow> matrix" where
  "make_samples sm X_class n =
     map (\<lambda>j. let (i, step) = draw sm (length X_class * k_neighbors sm) j;
                   r = (i div k_neighbors sm) mod length X_class;
                   c = i mod k_neighbors sm
               in interpolate (X_class ! r) (neighbor sm X_class r c) step)
         [0..<n]"

fun smote_classes ::
  "sampler \<Rightarrow> matrix \<Rightarrow> int list \<Rightarrow> (int \<times> nat) list \<Rightarrow> matrix \<times> int list
     \<Rightarrow> error + (matrix \<times> int list)" where
  "smote_classes sm X y [] acc = Inr acc"
| "smote_classes sm X y ((c, n) # targets) acc =
     (if n = 0 then smote_classes sm X y targets acc
      else
        let X_class = select (map (\<lambda>l. l = c) y) X in
        if length X_class < k_neighbors sm + 1
        then Inl (ValueError ''Expected n_neighbors <= n_samples_fit'')
        else smote_classes sm X y targets
               (fst acc @ make_samples sm X_class n, snd acc @ replicate n c))"

definition class_counts :: "int list \<Rightarrow> (int \<times> nat) list" where
  "class_counts y = map (\<lambda>c. (c, count_list y c)) (remdups (sort y))"

definition majority :: "(int \<times> nat) list \<Rightarrow> int \<times> nat" where
  "majority counts =
     foldl (\<lambda>best cn. if snd best < snd cn then cn else best) (hd counts) (tl counts)"

definition smote_fit_resample ::
  "sampler \<Rightarrow> matrix \<Rightarrow> int list \<Rightarrow> error + (matrix \<times> int list)" where
  "smote_fit_resample sm X y =
     (if length X \<noteq> length y
      then Inl (ValueError ''Found input variables with inconsistent numbers of samples'')
      else if list_ex (list_ex (\<lambda>c. c = None)) X
      then Inl (ValueError ''Input X contains NaN'')
      else
        let counts = class_counts y in
        if length counts \<le> 1
        then Inl (ValueError ''The target y needs to have more than 1 class'')
        else
          let (class_majority, n_sample_majority) = majority counts;
              targets = map (\<lambda>cn. (fst cn, n_sample_majority - snd cn))
                          (filter (\<lambda>cn. fst cn \<noteq> class_majority) counts)
          in smote_classes sm X y targets (X, y))"

section \<open>Scores\<close>

text \<open>
  \<^verbatim>\<open>accuracy_score\<close>, and \<^verbatim>\<open>precision_score\<close>, \<^verbatim>\<open>recall_score\<close> and
  \<^verbatim>\<open>f1_score\<close> as the code calls them: for the positive label 1 and with
  \<^verbatim>\<open>zero_division=0\<close>, so that a ratio whose denominator is 0 is 0. They raise on
  arrays of different lengths and on targets that are not binary with positive label 1.
\<close>

definition check_binary :: "int list \<Rightarrow> int list \<Rightarrow> error + unit" where
  "check_binary y_true y_pred =
     (let present = remdups (y_true @ y_pred) in
      if length y_true \<noteq> length y_pred
      then Inl (ValueError ''Found input variables with inconsistent numbers of samples'')
      else if 2 < length present
      then Inl (ValueError ''Target is multiclass but average=binary'')
      else if length present = 2 \<and> 1 \<notin> set present
      then Inl (ValueError ''pos_label=1 is not a valid label'')
      else Inr ())"

definition true_pos :: "int list \<Rightarrow> int list \<Rightarrow> nat" where
  "true_pos y_true y_pred = length (filter (\<lambda>(t, p). t = 1 \<and> p = 1) (zip y_true y_pred))"

definition false_pos :: "int list \<Rightarrow> int list \<Rightarrow> nat" where
  "false_pos y_true y_pred = length (filter (\<lambda>(t, p). t \<noteq> 1 \<and> p = 1) (zip y_true y_pred))"

definition false_neg :: "int list \<Rightarrow> int list \<Rightarrow> nat" where
  "false_neg y_true y_pred = length (filter (\<lambda>(t, p). t = 1 \<and> p \<noteq> 1) (zip y_true y_pred))"

definition ratio0 :: "nat \<Rightarrow> nat \<Rightarrow> rat" where
  "ratio0 a b = (if b = 0 then 0 else of_nat a / of_nat b)"

definition accuracy_score :: "int list \<Rightarrow> int list \<Rightarrow> error + rat" where
  "accuracy_score y_true y_pred =
     (if length y_true \<noteq> length y_pred
      then Inl (ValueError ''Found input variables with inconsistent numbers of samples'')
      else Inr (of_nat (length (filter (\<lambda>(t, p). t = p) (zip y_true y_pred)))
                / of_nat (length y_true)))"

definition precision_score :: "int list \<Rightarrow> int list \<Rightarrow> error + rat" where
  "precision_score y_true y_pred =
     bnd (check_binary y_true y_pred) (\<lambda>_.
       Inr (ratio0 (true_pos y_true y_pred)
                   (true_pos y_true y_pred + false_pos y_true y_pred)))"

definition recall_score :: "int list \<Rightarrow> int list \<Rightarrow> error + rat" where
  "recall_score y_true y_pred =
     bnd (check_binary y_true y_pred) (\<lambda>_.
       Inr (ratio0 (true_pos y_true y_pred)
                   (true_pos y_true y_pred + false_neg y_true y_pred)))"

definition f1_score :: "int list \<Rightarrow> int list \<Rightarrow> error + rat" where
  "f1_score y_true y_pred =
     bnd (check_binary y_true y_pred) (\<lambda>_.
       Inr (ratio0 (2 * true_pos y_true y_pred)
                   (2 * true_pos y_true y_pred + false_pos y_true y_pred
                      + false_neg y_true y_pred)))"

section \<open>Classifiers and library routines\<close>

text \<open>
  A classifier object as the pipeline uses it: \<^verbatim>\<open>fit\<close> gives the fitted state or
  raises, \<^verbatim>\<open>predict_proba(X)[:, 1]\<close> is the fraud probability of each row, and
  \<^verbatim>\<open>getattr(clf, 'feature_importances_', None)\<close> is a vector, \<open>None\<close> when the
  attribute does not exist, or a raise.
\<close>

record 'm classifier =
  clf_fit :: "matrix \<Rightarrow> int list \<Rightarrow> error + 'm"
  predict_proba :: "'m \<Rightarrow> cell list \<Rightarrow> rat"
  feature_importances :: "'m \<Rightarrow> error + rat list option"

text \<open>
  The three training files of \<^verbatim>\<open>backend\<close>. Their nested \<^verbatim>\<open>fit_and_eval\<close>
  functions are the same text but for the classifier and the handling of the importance
  ranking, so one definition below takes the file as an argument.
\<close>

datatype source = Xgboost_fraud | Random_forest_fraud | Svm_fraud

text \<open>
  The routines of scikit-learn and imbalanced-learn that the pipeline calls and that are
  not modelled above: the square root of the scaler, the stratified splitter (from the
  seed and the labels to the positions of the training and of the test rows), the
  sampler of a seed, two scores, the textual report, the classifier each file starts
  from, and the randomized search, which returns the best classifier and its
  parameters. Each is a function of its arguments, the seed included.
\<close>

record 'm library =
  fsqrt :: "rat \<Rightarrow> rat"
  train_test_split :: "int \<Rightarrow> int list \<Rightarrow> error + (nat list \<times> nat list)"
  smote :: "int \<Rightarrow> sampler"
  roc_auc_score :: "int list \<Rightarrow> rat list \<Rightarrow> error + rat"
  average_precision_score :: "int list \<Rightarrow> rat list \<Rightarrow> error + rat"
  classification_report :: "int list \<Rightarrow> int list \<Rightarrow> error + string"
  base_classifier :: "source \<Rightarrow> int \<Rightarrow> 'm classifier"
  randomized_search ::
    "'m classifier \<Rightarrow> nat \<Rightarrow> nat \<Rightarrow> int \<Rightarrow> matrix \<Rightarrow> int list
       \<Rightarrow> error + ('m classifier \<times> (string \<times> rat) list)"

section \<open>Diagnostics\<close>

text \<open>
  The importance ranking, inside its \<^verbatim>\<open>try\<close>:
  \<^verbatim>\<open>
  num_feature_names = pre.transformers_[0][2]
  importances = getattr(clf, 'feature_importances_', None)
  if importances is not None:
      fi = (pd.DataFrame({"feature": num_feature_names, "importance": importances})
            .sort_values("importance", ascending=False))
      metrics["feature_importances"] = fi.head(50).to_dict(orient="records")
  \<close>
  The result is \<open>Inr None\<close> when there is no vector, and a raise when the attribute
  raises or the vector is not as long as the list of names.

  \<^verbatim>\<open>sort_values\<close> sorts by one key. pandas leaves the order of rows with equal keys
  to the sorting algorithm; in the model they keep their order, in an ascending sort
  and, as pandas reverses before and after sorting, in a descending one. The properties
  proved of the rankings hold for any order among equal keys.
\<close>

definition sort_values :: "bool \<Rightarrow> ('a \<times> rat) list \<Rightarrow> ('a \<times> rat) list" where
  "sort_values ascending rs =
     (if ascending then sort_key snd rs else rev (sort_key snd (rev rs)))"

definition importance_ranking ::
  "string list \<Rightarrow> error + rat list option \<Rightarrow> error + (string \<times> rat) list option" where
  "importance_ranking names importances =
     bnd importances (\<lambda>imp.
       case imp of
         None \<Rightarrow> Inr None
       | Some v \<Rightarrow>
           if length v \<noteq> length names
           then Inl (ValueError ''All arrays must be of the same length'')
           else Inr (Some (take 50 (sort_values False (zip names v)))))"

text \<open>
  The recent events, inside their \<^verbatim>\<open>try\<close>:
  \<^verbatim>\<open>
  addr_test = addresses.loc[X_test.index].astype(str).fillna('unknown')
  conf = pd.Series(proba, index=X_test.index)
  df_events = pd.DataFrame({'address': addr_test, 'proba': conf})
  top_frauds = df_events.sort_values('proba', ascending=False).head(10)
  top_legits = df_events.sort_values('proba', ascending=True).head(10)
  events = []
  for _, row in top_frauds.iterrows():
      events.append({'address': row['address'][:12], 'status': 'fraud',
                     'confidence': float(row['proba']), 'time': 'just now'})
  for _, row in top_legits.iterrows():
      events.append({'address': row['address'][:12], 'status': 'legitimate',
                     'confidence': float(1.0 - row['proba']), 'time': 'just now'})
  \<close>
  \<open>addresses\<close> is the address column of the input frame under its index labels; a
  missing address reads \<open>nan\<close> after \<^verbatim>\<open>astype(str)\<close>, and a label that is not in the
  index raises.
\<close>

type_synonym address_series = "(nat \<times> string option) list"

fun loc_addresses :: "address_series \<Rightarrow> nat list \<Rightarrow> error + string list" where
  "loc_addresses addresses [] = Inr []"
| "loc_addresses addresses (l # ls) =
     (case map_of addresses l of
        None \<Rightarrow> Inl (KeyError ''not in index'')
      | Some a \<Rightarrow>
          bnd (loc_addresses addresses ls) (\<lambda>as.
            Inr ((case a of None \<Rightarrow> ''nan'' | Some s \<Rightarrow> s) # as)))"

definition fraud_event :: "string \<times> rat \<Rightarrow> event" where
  "fraud_event row =
     \<lparr>ev_address = take 12 (fst row), ev_status = ''fraud'',
      ev_confidence = snd row, ev_time = ''just now''\<rparr>"

definition legit_event :: "string \<times> rat \<Rightarrow> event" where
  "legit_event row =
     \<lparr>ev_address = take 12 (fst row), ev_status = ''legitimate'',
      ev_confidence = 1 - snd row, ev_time = ''just now''\<rparr>"

definition recent_events ::
  "address_series \<Rightarrow> nat list \<Rightarrow> rat list \<Rightarrow> error + event list" where
  "recent_events addresses test_index proba =
     bnd (loc_addresses addresses test_index) (\<lambda>addr_test.
       if length proba \<noteq> length test_index
       then Inl (ValueError ''Length of values does not match length of index'')
       else
         let df_events = zip addr_test proba;
             top_frauds = take 10 (sort_values False df_events);
             top_legits = take 10 (sort_values True df_events);
             events = foldl (\<lambda>evs row. evs @ [fraud_event row]) [] top_frauds
         in Inr (foldl (\<lambda>evs row. evs @ [legit_event row]) events top_legits))"

section \<open>Fitting and evaluating\<close>

text \<open>
  What \<^verbatim>\<open>fit_and_eval\<close> reads from the enclosing training function: the two
  partitions, the address column, the column list of the preprocessor, the seed and the
  statistics of the input frame.
\<close>

record run_data =
  X_train :: frame
  X_test :: frame
  y_train :: "int list"
  y_test :: "int list"
  addresses :: address_series
  feature_cols :: "string list"
  random_state :: int
  original_fraud_rate :: cell
  original_total :: int
  original_fraud :: int

definition int_mean :: "int list \<Rightarrow> cell" where
  "int_mean ys =
     (if ys = [] then None else Some (of_int (sum_list ys) / of_nat (length ys)))"

definition count_zero :: "int list \<Rightarrow> int" where
  "count_zero ys = int (length (filter (\<lambda>l. l = 0) ys))"

text \<open>
  The importance ranking as each file stores it: \<^verbatim>\<open>xgboost_fraud.py\<close> passes on a
  raise and leaves the record as it is, \<^verbatim>\<open>random_forest_fraud.py\<close> stores the empty
  list on a raise, \<^verbatim>\<open>svm_fraud.py\<close> has the empty list in the record from the start
  and computes no ranking.
\<close>

definition with_importances ::
  "source \<Rightarrow> metrics \<Rightarrow> string list \<Rightarrow> error + rat list option \<Rightarrow> metrics" where
  "with_importances src metrics names importances =
     (case src of
        Xgboost_fraud \<Rightarrow>
          (case importance_ranking names importances of
             Inl e \<Rightarrow> metrics
           | Inr None \<Rightarrow> metrics
           | Inr (Some fi) \<Rightarrow> dict_set metrics ''feature_importances'' (MRanking fi))
      | Random_forest_fraud \<Rightarrow>
          (case importance_ranking names importances of
             Inl e \<Rightarrow> dict_set metrics ''feature_importances'' (MRanking [])
           | Inr None \<Rightarrow> metrics
           | Inr (Some fi) \<Rightarrow> dict_set metrics ''feature_importances'' (MRanking fi))
      | Svm_fraud \<Rightarrow> dict_set metrics ''feature_importances'' (MRanking []))"

definition with_events :: "metrics \<Rightarrow> error + event list \<Rightarrow> metrics" where
  "with_events metrics events =
     (case events of
        Inl e \<Rightarrow> dict_set metrics ''recent_events'' (MEvents [])
      | Inr evs \<Rightarrow> dict_set metrics ''recent_events'' (MEvents evs))"

text \<open>
  \<^verbatim>\<open>proba = clf.predict_proba(X_te)[:, 1]\<close> and
  \<^verbatim>\<open>preds = (proba >= 0.5).astype(int)\<close>.
\<close>

definition probabilities :: "'m classifier \<Rightarrow> 'm \<Rightarrow> matrix \<Rightarrow> rat list" where
  "probabilities clf model X_te = map (predict_proba clf model) X_te"

definition threshold :: "rat list \<Rightarrow> int list" where
  "threshold proba = map (\<lambda>p. if 1/2 \<le> p then 1 else 0) proba"

text \<open>
  The dict literal that \<^verbatim>\<open>fit_and_eval\<close> starts its record with, from the scores,
  the balanced fold and the clock. \<^verbatim>\<open>pre_smote_fraud = int(y_train.sum())\<close>,
  \<^verbatim>\<open>pre_smote_legit = int((y_train == 0).sum())\<close>, and the same of \<^verbatim>\<open>y_tr\<close>
  after balancing.
\<close>

definition base_metrics ::
  "run_data \<Rightarrow> rat \<Rightarrow> rat \<Rightarrow> rat \<Rightarrow> rat \<Rightarrow> rat \<Rightarrow> rat \<Rightarrow> string
     \<Rightarrow> matrix \<Rightarrow> int list \<Rightarrow> string \<Rightarrow> metrics" where
  "base_metrics d accuracy precision recall f1 roc_auc pr_auc report X_tr y_tr now =
           [(''accuracy'', MFloat (Some accuracy)),
            (''precision'', MFloat (Some precision)),
            (''recall'', MFloat (Some recall)),
            (''f1'', MFloat (Some f1)),
            (''roc_auc'', MFloat (Some roc_auc)),
            (''pr_auc'', MFloat (Some pr_auc)),
            (''report'', MStr report),
            (''train_samples_pre_smote'', MInt (int (nrows (X_train d)))),
            (''train_samples_post_smote'', MInt (int (length X_tr))),
            (''test_samples'', MInt (int (nrows (X_test d)))),
            (''num_features'', MInt (int (length (feature_cols d)))),
            (''original_fraud_rate'', MFloat (original_fraud_rate d)),
            (''balanced_fraud_rate'', MFloat (int_mean y_tr)),
            (''original_total'', MInt (original_total d)),
            (''original_fraud'', MInt (original_fraud d)),
            (''pre_smote_fraud'', MInt (sum_list (y_train d))),
            (''pre_smote_legit'', MInt (count_zero (y_train d))),
            (''post_smote_fraud'', MInt (sum_list y_tr)),
            (''post_smote_legit'', MInt (count_zero y_tr)),
            (''timestamp'', MStr (now @ ''Z''))]"

text \<open>
  \<open>now\<close> is what \<^verbatim>\<open>datetime.utcnow().isoformat()\<close> returns when the record is built.
  The result is the triple \<^verbatim>\<open>(metrics, clf, pre)\<close>: the record, the fitted
  classifier and the fitted preprocessor.
\<close>

definition fit_and_eval ::
  "source \<Rightarrow> 'm library \<Rightarrow> run_data \<Rightarrow> 'm classifier \<Rightarrow> string
     \<Rightarrow> error + (metrics \<times> 'm \<times> scaler)" where
  "fit_and_eval src lib d clf now =
     bnd (pre_fit_transform (fsqrt lib) (feature_cols d) (X_train d)) (\<lambda>(pre, X_tr0).
     bnd (pre_transform (Some pre) (X_test d)) (\<lambda>X_te.
     bnd (smote_fit_resample (smote lib (random_state d)) X_tr0 (y_train d)) (\<lambda>(X_tr, y_tr).
     bnd (clf_fit clf X_tr y_tr) (\<lambda>model.
     let proba = probabilities clf model X_te;
         preds = threshold proba
     in
     bnd (accuracy_score (y_test d) preds) (\<lambda>accuracy.
     bnd (precision_score (y_test d) preds) (\<lambda>precision.
     bnd (recall_score (y_test d) preds) (\<lambda>recall.
     bnd (f1_score (y_test d) preds) (\<lambda>f1.
     bnd (roc_auc_score lib (y_test d) proba) (\<lambda>roc_auc.
     bnd (average_precision_score lib (y_test d) proba) (\<lambda>pr_auc.
     bnd (classification_report lib (y_test d) preds) (\<lambda>report.
     let metrics = base_metrics d accuracy precision recall f1 roc_auc pr_auc report
                     X_tr y_tr now;
         metrics = with_importances src metrics (feature_names pre)
                     (feature_importances clf model);
         metrics = with_events metrics
                     (recent_events (addresses d) (index (X_test d)) proba)
     in Inr (metrics, model, pre))))))))))))"

section \<open>The training functions\<close>

text \<open>
  The input of \<^verbatim>\<open>train_xgb\<close>, \<^verbatim>\<open>train_random_forest\<close> and \<^verbatim>\<open>train_svm\<close>: the
  frame that \<^verbatim>\<open>load_and_prepare\<close> and \<^verbatim>\<open>engineer_features\<close> built. Its numeric
  columns, the label among them, are \<open>num\<close>; its \<^verbatim>\<open>address\<close> column, when it has one,
  is \<open>address\<close>. Columns that are not numeric are dropped by the functions at once and
  are not part of the model.
\<close>

record dataset =
  address :: "string option list option"
  num :: frame

definition trunc_int :: "rat \<Rightarrow> int" where
  "trunc_int v = (if 0 \<le> v then \<lfloor>v\<rfloor> else \<lceil>v\<rceil>)"

definition astype_int :: "series \<Rightarrow> error + int list" where
  "astype_int s =
     (if list_ex (\<lambda>c. c = None) s
      then Inl (ValueError ''Cannot convert non-finite values (NA or inf) to integer'')
      else Inr (map trunc_int (dropna s)))"

definition drop_column :: "frame \<Rightarrow> string \<Rightarrow> frame" where
  "drop_column df c = df\<lparr>cols := filter (\<lambda>cs. fst cs \<noteq> c) (cols df)\<rparr>"

definition continuous_like :: "string list \<Rightarrow> string list" where
  "continuous_like numeric_cols =
     filter (\<lambda>c. \<not> list_ex (\<lambda>substr. contains (lower c) substr)
                      [''flag'', ''label'', ''binary'', ''bool''])
       numeric_cols"

text \<open>
  The rows of a frame at the positions the splitter returns. The splitter is the
  library's; positions beyond the frame are refused here.
\<close>

definition iloc :: "frame \<Rightarrow> nat list \<Rightarrow> error + frame" where
  "iloc df ps =
     (if list_ex (\<lambda>p. nrows df \<le> p) ps then Inl (LibraryError ''position out of bounds'')
      else Inr \<lparr>index = map (nth (index df)) ps,
                cols = map (\<lambda>cs. (fst cs, map (nth (snd cs)) ps)) (cols df)\<rparr>)"

definition iloc_list :: "'a list \<Rightarrow> nat list \<Rightarrow> error + 'a list" where
  "iloc_list xs ps =
     (if list_ex (\<lambda>p. length xs \<le> p) ps then Inl (LibraryError ''position out of bounds'')
      else Inr (map (nth xs) ps))"

text \<open>
  \<^verbatim>\<open>train_xgb(df, random_search, n_iter, cv, random_state)\<close> and its two siblings,
  which differ in the classifier, in the importance ranking of \<^verbatim>\<open>fit_and_eval\<close>
  and in the seed of the search (\<^verbatim>\<open>train_xgb\<close> fixes it to 42). The outlier filter
  runs on \<^verbatim>\<open>Xy = pd.concat([X, y], axis=1)\<close>, the whole frame with the label as its
  last column, before the split; the label is then read back from the filtered frame
  (\<^verbatim>\<open>Xy['fraud_label']\<close>).
\<close>

definition train_model ::
  "source \<Rightarrow> 'm library \<Rightarrow> dataset \<Rightarrow> bool \<Rightarrow> nat \<Rightarrow> nat \<Rightarrow> int \<Rightarrow> string
     \<Rightarrow> error + (metrics \<times> 'm \<times> scaler)" where
  "train_model src lib df random_search n_iter cv seed now =
     bnd (column (num df) ''fraud_label'') (\<lambda>label.
     bnd (astype_int label) (\<lambda>y.
     let X = drop_column (num df) ''fraud_label'';
         rate = int_mean y;
         total = int (length y);
         fraud = sum_list y;
         numeric_cols = columns X;
         addrs = zip (index (num df))
                   (case address df of
                      Some a \<Rightarrow> a
                    | None \<Rightarrow> replicate (nrows (num df)) (Some ''unknown''));
         Xy = X\<lparr>cols := cols X @ [(''fraud_label'', map (\<lambda>l. Some (of_int l)) y)]\<rparr>
     in
     bnd (iqr_clip Xy (continuous_like numeric_cols) (3/2)) (\<lambda>Xy.
     bnd (column Xy ''fraud_label'') (\<lambda>label.
     bnd (astype_int label) (\<lambda>y.
     let X = drop_column Xy ''fraud_label'' in
     bnd (train_test_split lib seed y) (\<lambda>(tr, te).
     bnd (iloc X tr) (\<lambda>Xtr.
     bnd (iloc X te) (\<lambda>Xte.
     bnd (iloc_list y tr) (\<lambda>ytr.
     bnd (iloc_list y te) (\<lambda>yte.
     let d = \<lparr>X_train = Xtr, X_test = Xte, y_train = ytr, y_test = yte,
              addresses = addrs, feature_cols = columns X, random_state = seed,
              original_fraud_rate = rate, original_total = total,
              original_fraud = fraud\<rparr>;
         base = base_classifier lib src seed
     in
     if \<not> random_search then fit_and_eval src lib d base now
     else
       bnd (pre_fit_transform (fsqrt lib) (columns X) Xtr) (\<lambda>(pre, X_tr_all).
       bnd (smote_fit_resample (smote lib seed) X_tr_all ytr) (\<lambda>(X_tr_all, y_tr_all).
       bnd (randomized_search lib base n_iter cv
              (if src = Xgboost_fraud then 42 else seed) X_tr_all y_tr_all) (\<lambda>(best, best_params).
       bnd (fit_and_eval src lib d best now) (\<lambda>(metrics, model, preproc).
         Inr (dict_set metrics ''best_params'' (MParams best_params), model, preproc)))))
     ))))))))))"

definition train_xgb ::
  "'m library \<Rightarrow> dataset \<Rightarrow> bool \<Rightarrow> nat \<Rightarrow> nat \<Rightarrow> int \<Rightarrow> string
     \<Rightarrow> error + (metrics \<times> 'm \<times> scaler)" where
  "train_xgb = train_model Xgboost_fraud"

definition train_random_forest ::
  "'m library \<Rightarrow> dataset \<Rightarrow> bool \<Rightarrow> nat \<Rightarrow> nat \<Rightarrow> int \<Rightarrow> string
     \<Rightarrow> error + (metrics \<times> 'm \<times> scaler)" where
  "train_random_forest = train_model Random_forest_fraud"

definition train_svm ::
  "'m library \<Rightarrow> dataset \<Rightarrow> bool \<Rightarrow> nat \<Rightarrow> nat \<Rightarrow> int \<Rightarrow> string
     \<Rightarrow> error + (metrics \<times> 'm \<times> scaler)" where
  "train_svm = train_model Svm_fraud"

section \<open>The training request\<close>

text \<open>
  \<^verbatim>\<open>train_endpoint\<close> of \<^verbatim>\<open>api.py\<close>, up to the record it answers with:
  \<^verbatim>\<open>
  df = load_and_prepare(tx_path, ft_path)
  df = engineer_features(df)
  chosen = (model or "").lower()
  if chosen == "svm":
      metrics, trained_model, preproc = train_svm(df, random_search=not no_tune, random_state=seed)
      metrics["used_model"] = "svm"
  elif chosen == "random_forest": ...
  elif chosen == "neural_network": ...
  else:
      metrics, trained_model, preproc = train_xgb(df, random_search=not no_tune, random_state=seed)
      metrics["used_model"] = "xgboost"
  \<close>
  The functions it calls are the fields of \<open>backend\<close>; the file of
  \<^verbatim>\<open>train_neural_network\<close> (\<^verbatim>\<open>neural_network_fraud.py\<close>) is not available. The result carries the calls
  made, in order, and the record or the error raised. The bookkeeping of the answer in
  the process-wide stores that follows is not modelled.
\<close>

datatype call =
    Load_and_prepare
  | Engineer_features
  | Train_svm
  | Train_random_forest
  | Train_neural_network
  | Train_xgb

record ('csv, 'df) backend =
  load_and_prepare :: "'csv \<Rightarrow> 'csv \<Rightarrow> error + 'df"
  engineer_features :: "'df \<Rightarrow> error + 'df"
  svm :: "'df \<Rightarrow> bool \<Rightarrow> int \<Rightarrow> error + metrics"
  random_forest :: "'df \<Rightarrow> bool \<Rightarrow> int \<Rightarrow> error + metrics"
  neural_network :: "'df \<Rightarrow> bool \<Rightarrow> int \<Rightarrow> error + metrics"
  xgb :: "'df \<Rightarrow> bool \<Rightarrow> int \<Rightarrow> error + metrics"

definition used :: "string \<Rightarrow> error + metrics \<Rightarrow> error + metrics" where
  "used name r = bnd r (\<lambda>metrics. Inr (dict_set metrics ''used_model'' (MStr name)))"

definition train_endpoint ::
  "('csv, 'df) backend \<Rightarrow> 'csv \<Rightarrow> 'csv \<Rightarrow> string option \<Rightarrow> bool option \<Rightarrow> int
     \<Rightarrow> call list \<times> (error + metrics)" where
  "train_endpoint bk transactions_csv features_csv model no_tune seed =
     (case load_and_prepare bk transactions_csv features_csv of
        Inl e \<Rightarrow> ([Load_and_prepare], Inl e)
      | Inr df \<Rightarrow>
          (case engineer_features bk df of
             Inl e \<Rightarrow> ([Load_and_prepare, Engineer_features], Inl e)
           | Inr df \<Rightarrow>
               let chosen = lower (case model of None \<Rightarrow> [] | Some m \<Rightarrow> m);
                   random_search = \<not> (case no_tune of None \<Rightarrow> False | Some b \<Rightarrow> b)
               in
               if chosen = ''svm''
               then ([Load_and_prepare, Engineer_features, Train_svm],
                     used ''svm'' (svm bk df random_search seed))
               else if chosen = ''random_forest''
               then ([Load_and_prepare, Engineer_features, Train_random_forest],
                     used ''random_forest'' (random_forest bk df random_search seed))
               else if chosen = ''neural_network''
               then ([Load_and_prepare, Engineer_features, Train_neural_network],
                     used ''neural_network'' (neural_network bk df random_search seed))
               else ([Load_and_prepare, Engineer_features, Train_xgb],
                     used ''xgboost'' (xgb bk df random_search seed))))"

section \<open>Comparing two runs\<close>



section \<open>Concrete inputs\<close>



text \<open>
  A library to run the pipeline with: a Newton iteration for the square root, a splitter
  that puts every fifth row into the test partition, a sampler that interpolates halfway
  to a following row of the class, the rank statistic for the area under the ROC curve,
  the mean precision at the positives for the average precision, and a one-feature
  classifier whose fraud probability grows with the distance from the midpoint of the
  two class means.
\<close>

definition newton_sqrt :: "rat \<Rightarrow> rat" where
  "newton_sqrt v = (if v \<le> 0 then 0 else ((\<lambda>x. (x + v / x) / 2) ^^ 4) 1)"

definition every_fifth :: "int \<Rightarrow> int list \<Rightarrow> error + (nat list \<times> nat list)" where
  "every_fifth seed y =
     (if length y < 2 then Inl (ValueError ''the resulting train set will be empty'')
      else Inr (filter (\<lambda>i. i mod 5 \<noteq> 4) [0..<length y],
                filter (\<lambda>i. i mod 5 = 4) [0..<length y]))"

definition halfway :: "int \<Rightarrow> sampler" where
  "halfway seed =
     \<lparr>k_neighbors = 5,
      neighbor = (\<lambda>X r c. X ! ((r + c + 1) mod length X)),
      draw = (\<lambda>high j. (j mod high, 1/2))\<rparr>"

definition rank_auc :: "int list \<Rightarrow> rat list \<Rightarrow> error + rat" where
  "rank_auc y_true score =
     (let pos = map snd (filter (\<lambda>(t, s). t = 1) (zip y_true score));
          neg = map snd (filter (\<lambda>(t, s). t \<noteq> 1) (zip y_true score))
      in if pos = [] \<or> neg = [] then Inl (ValueError ''Only one class present in y_true'')
         else Inr (sum_list (map (\<lambda>p. sum_list (map (\<lambda>n. if n < p then 1 else if n = p then 1/2 else 0) neg)) pos)
                   / of_nat (length pos * length neg)))"

definition mean_precision :: "int list \<Rightarrow> rat list \<Rightarrow> error + rat" where
  "mean_precision y_true score =
     (let ts = zip y_true score;
          pos = map snd (filter (\<lambda>(t, s). t = 1) ts)
      in if pos = [] then Inr 0
         else Inr (sum_list (map (\<lambda>p. of_nat (length (filter (\<lambda>(t, s). t = 1 \<and> p \<le> s) ts))
                                      / of_nat (length (filter (\<lambda>(t, s). p \<le> s) ts))) pos)
                   / of_nat (length pos)))"

definition first_feature_mean :: "matrix \<Rightarrow> int list \<Rightarrow> bool \<Rightarrow> rat" where
  "first_feature_mean X y fraud =
     (let vs = dropna (map (\<lambda>(x, l). case x of [] \<Rightarrow> None | c # _ \<Rightarrow> c)
                        (filter (\<lambda>(x, l). (l = 1) = fraud) (zip X y)))
      in case vs of [] \<Rightarrow> 0 | _ \<Rightarrow> sum_list vs / of_nat (length vs))"

definition midpoint_classifier :: "(rat \<Rightarrow> error + rat list option) \<Rightarrow> rat classifier" where
  "midpoint_classifier importances =
     \<lparr>clf_fit = (\<lambda>X y. Inr ((first_feature_mean X y True + first_feature_mean X y False) / 2)),
      predict_proba = (\<lambda>mid x. case x of
                          Some v # _ \<Rightarrow> max 0 (min 1 (1/2 + (v - mid) / 4))
                        | _ \<Rightarrow> 1/2),
      feature_importances = importances\<rparr>"

definition demo_library :: "rat library" where
  "demo_library =
     \<lparr>fsqrt = newton_sqrt,
      train_test_split = every_fifth,
      smote = halfway,
      roc_auc_score = rank_auc,
      average_precision_score = mean_precision,
      classification_report = (\<lambda>y_true y_pred. Inr ''report''),
      base_classifier = (\<lambda>src seed. midpoint_classifier
                           (\<lambda>mid. Inr (if src = Svm_fraud then None else Some [1]))),
      randomized_search = (\<lambda>clf n_iter cv seed X y. Inr (clf, []))\<rparr>"

text \<open>
  A frame of ten addresses over the one feature \<open>total_sent\<close>, five of them fraud,
  and the split \<open>train_xgb\<close> makes of it with the library above: eight training rows,
  and the two test rows 4 and 9, which both get a fraud probability below one half.
\<close>

definition demo_frame :: dataset where
  "demo_frame =
     \<lparr>address = Some [Some ''0xaaaa0000000000000000'', Some ''0xbbbb0000000000000000'',
                       Some ''0xcccc0000000000000000'', Some ''0xdddd0000000000000000'',
                       Some ''0xeeee0000000000000000'', Some ''0xffff0000000000000000'',
                       Some ''0x11110000000000000000'', Some ''0x22220000000000000000'',
                       Some ''0x33330000000000000000'', Some ''0x44440000000000000000''],
      num = \<lparr>index = [0, 1, 2, 3, 4, 5, 6, 7, 8, 9],
              cols = [(''total_sent'', [Some 1, Some 1, Some 3, Some 3, Some 1,
                                        Some 1, Some 1, Some 3, Some 3, Some (3/2)]),
                      (''fraud_label'', [Some 0, Some 0, Some 1, Some 1, Some 0,
                                         Some 0, Some 0, Some 1, Some 1, Some 1])]\<rparr>\<rparr>"

definition demo_addresses :: address_series where
  "demo_addresses =
     [(0, Some ''0xaaaa0000000000000000''), (1, Some ''0xbbbb0000000000000000''),
      (2, Some ''0xcccc0000000000000000''), (3, Some ''0xdddd0000000000000000''),
      (4, Some ''0xeeee0000000000000000''), (5, Some ''0xffff0000000000000000''),
      (6, Some ''0x11110000000000000000''), (7, Some ''0x22220000000000000000''),
      (8, Some ''0x33330000000000000000''), (9, Some ''0x44440000000000000000'')]"

definition demo_data :: run_data where
  "demo_data =
     \<lparr>X_train = \<lparr>index = [0, 1, 2, 3, 5, 6, 7, 8],
                  cols = [(''total_sent'', [Some 1, Some 1, Some 3, Some 3,
                                            Some 1, Some 1, Some 3, Some 3])]\<rparr>,
      X_test = \<lparr>index = [4, 9], cols = [(''total_sent'', [Some 1, Some (3/2)])]\<rparr>,
      y_train = [0, 0, 1, 1, 0, 0, 1, 1],
      y_test = [0, 1],
      addresses = demo_addresses,
      feature_cols = [''total_sent''],
      random_state = 42,
      original_fraud_rate = Some (1/2),
      original_total = 10,
      original_fraud = 5\<rparr>"

definition demo_scaler :: scaler where
  "demo_scaler = \<lparr>feature_names = [''total_sent''], means = [Some 2], scales = [Some 1]\<rparr>"

text \<open>The same frame with every label 0.\<close>

definition all_legit :: dataset where
  "all_legit =
     \<lparr>address = address demo_frame,
      num = \<lparr>index = [0, 1, 2, 3, 4, 5, 6, 7, 8, 9],
              cols = [(''total_sent'', [Some 1, Some 1, Some 3, Some 3, Some 1,
                                        Some 1, Some 1, Some 3, Some 3, Some (3/2)]),
                      (''fraud_label'', [Some 0, Some 0, Some 0, Some 0, Some 0,
                                         Some 0, Some 0, Some 0, Some 0, Some 0])]\<rparr>\<rparr>"

text \<open>What the run on \<open>demo_data\<close> computes.\<close>

definition demo_matrix :: matrix where
  "demo_matrix =
     [ [Some (-1)], [Some (-1)], [Some 1], [Some 1], [Some (-1)], [Some (-1)], [Some 1], [Some 1] ]"

definition demo_base :: "string \<Rightarrow> metrics" where
  "demo_base now =
      [(''accuracy'', MFloat (Some (1 / 2))),
       (''precision'', MFloat (Some 0)), (''recall'', MFloat (Some 0)),
       (''f1'', MFloat (Some 0)), (''roc_auc'', MFloat (Some 1)),
       (''pr_auc'', MFloat (Some 1)), (''report'', MStr ''report''),
       (''train_samples_pre_smote'', MInt 8),
       (''train_samples_post_smote'', MInt 8), (''test_samples'', MInt 2),
       (''num_features'', MInt 1),
       (''original_fraud_rate'', MFloat (Some (1 / 2))),
       (''balanced_fraud_rate'', MFloat (Some (1 / 2))),
       (''original_total'', MInt 10), (''original_fraud'', MInt 5),
       (''pre_smote_fraud'', MInt 4), (''pre_smote_legit'', MInt 4),
       (''post_smote_fraud'', MInt 4), (''post_smote_legit'', MInt 4),
       (''timestamp'', MStr (now @ ''Z''))]"

definition demo_events :: "event list" where
  "demo_events =
     [\<lparr>ev_address = ''0x4444000000'', ev_status = ''fraud'',
         ev_confidence = 3 / 8, ev_time = ''just now''\<rparr>,
      \<lparr>ev_address = ''0xeeee000000'', ev_status = ''fraud'',
         ev_confidence = 1 / 4, ev_time = ''just now''\<rparr>,
      \<lparr>ev_address = ''0xeeee000000'', ev_status = ''legitimate'',
         ev_confidence = 3 / 4, ev_time = ''just now''\<rparr>,
      \<lparr>ev_address = ''0x4444000000'', ev_status = ''legitimate'',
         ev_confidence = 5 / 8, ev_time = ''just now''\<rparr>]"


text \<open>
  A split whose training fold has eight legitimate and six fraud rows, so that the
  oversampler has two rows to add.
\<close>

definition imbalanced_data :: run_data where
  "imbalanced_data =
     \<lparr>X_train = \<lparr>index = [0, 1, 2, 3, 4, 5, 6, 7, 8, 9, 10, 11, 12, 13],
                  cols = [(''total_sent'', [Some 1, Some 1, Some 1, Some 1, Some 1, Some 1, Some 1,
                                            Some 3, Some 3, Some 3, Some 3, Some 3, Some 3, Some 3])]\<rparr>,
      X_test = \<lparr>index = [14, 15], cols = [(''total_sent'', [Some 1, Some 3])]\<rparr>,
      y_train = [0, 0, 0, 0, 0, 0, 0, 0, 1, 1, 1, 1, 1, 1],
      y_test = [0, 1],
      addresses = [(0, Some ''0xa000000000000000''), (1, Some ''0xa001000000000000''), (2, Some ''0xa002000000000000''), (3, Some ''0xa003000000000000''), (4, Some ''0xa004000000000000''), (5, Some ''0xa005000000000000''), (6, Some ''0xa006000000000000''), (7, Some ''0xa007000000000000''), (8, Some ''0xa008000000000000''), (9, Some ''0xa009000000000000''), (10, Some ''0xa00a000000000000''), (11, Some ''0xa00b000000000000''), (12, Some ''0xa00c000000000000''), (13, Some ''0xa00d000000000000''), (14, Some ''0xa00e000000000000''), (15, Some ''0xa00f000000000000'')],
      feature_cols = [''total_sent''],
      random_state = 7,
      original_fraud_rate = Some (7/16),
      original_total = 16,
      original_fraud = 7\<rparr>"




text \<open>
  A backend for the training request: the loader checks the label column as
  \<^verbatim>\<open>load_and_prepare\<close> does and passes the feature table on, and the trainers are the
  training functions above with the demo library.
\<close>

definition demo_backend :: "(dataset, dataset) backend" where
  "demo_backend =
     \<lparr>load_and_prepare = (\<lambda>tx ft.
         if ''fraud_label'' \<in> set (columns (num ft)) then Inr ft
         else Inl (ValueError ''Expected flag (or FLAG) target in features CSV'')),
      engineer_features = (\<lambda>df. Inr df),
      svm = (\<lambda>df random_search seed.
         map_sum id fst (train_svm demo_library df random_search 20 5 seed ''2024-01-01T00:00:00'')),
      random_forest = (\<lambda>df random_search seed.
         map_sum id fst
           (train_random_forest demo_library df random_search 25 5 seed ''2024-01-01T00:00:00'')),
      neural_network = (\<lambda>df random_search seed.
         Inl (LibraryError ''neural_network_fraud is not available'')),
      xgb = (\<lambda>df random_search seed.
         map_sum id fst (train_xgb demo_library df random_search 20 5 seed ''2024-01-01T00:00:00''))\<rparr>"

section \<open>Verified properties\<close>

subsection \<open>Row selection\<close>





subsection \<open>The outlier filter\<close>


lemma map_of_map_snd:
  "map_of (map (\<lambda>cs. (fst cs, f (snd cs))) xs) c = map_option f (map_of xs c)"
  by (induction xs) auto






subsection \<open>The frequency flag\<close>










subsection \<open>Sequencing and the metrics record\<close>

lemma bnd_Inr: "bnd r f = Inr y \<longleftrightarrow> (\<exists>x. r = Inr x \<and> f x = Inr y)"
  by (cases r) (simp_all add: bnd_def)

lemma map_of_replace:
  "map_of (map (\<lambda>kv. if fst kv = k then (k, v) else kv) d) k'
     = (if k' = k then (case map_of d k of None \<Rightarrow> None | Some _ \<Rightarrow> Some v) else map_of d k')"
  by (induction d) (auto split: option.splits)

lemma map_of_dict_set:
  "map_of (dict_set d k v) k' = (if k' = k then Some v else map_of d k')"
proof (cases "k \<in> fst ` set d")
  case True
  then obtain w where "map_of d k = Some w"
    by (cases "map_of d k") (auto simp: map_of_eq_None_iff)
  with True show ?thesis by (simp add: dict_set_def map_of_replace)
next
  case False
  then have "map_of d k = None" by (simp add: map_of_eq_None_iff)
  with False show ?thesis by (auto simp: dict_set_def map_add_def split: option.splits)
qed

lemma dict_get_dict_set:
  "dict_get (dict_set d k v) k' = (if k' = k then Some v else dict_get d k')"
  by (simp add: dict_get_def map_of_dict_set)

lemma dict_get_with_events:
  "dict_get (with_events m evs) k =
     (if k = ''recent_events'' then Some (MEvents (case evs of Inl e \<Rightarrow> [] | Inr es \<Rightarrow> es))
      else dict_get m k)"
  by (simp add: with_events_def dict_get_dict_set split: sum.splits)

lemma dict_get_with_importances_other:
  "k \<noteq> ''feature_importances'' \<Longrightarrow>
     dict_get (with_importances src m names imp) k = dict_get m k"
  by (simp add: with_importances_def dict_get_dict_set
      split: source.splits sum.splits option.splits)

text \<open>A run that returns has passed every step; its record is built from their results.\<close>

lemma fit_and_eval_cases:
  assumes "fit_and_eval src lib d clf now = Inr (metrics, model, pre)"
  obtains X_tr0 X_te X_tr y_tr accuracy precision recall f1 roc_auc pr_auc report where
    "pre_fit_transform (fsqrt lib) (feature_cols d) (X_train d) = Inr (pre, X_tr0)"
    "pre_transform (Some pre) (X_test d) = Inr X_te"
    "smote_fit_resample (smote lib (random_state d)) X_tr0 (y_train d) = Inr (X_tr, y_tr)"
    "clf_fit clf X_tr y_tr = Inr model"
    "accuracy_score (y_test d) (threshold (probabilities clf model X_te)) = Inr accuracy"
    "precision_score (y_test d) (threshold (probabilities clf model X_te)) = Inr precision"
    "recall_score (y_test d) (threshold (probabilities clf model X_te)) = Inr recall"
    "f1_score (y_test d) (threshold (probabilities clf model X_te)) = Inr f1"
    "roc_auc_score lib (y_test d) (probabilities clf model X_te) = Inr roc_auc"
    "average_precision_score lib (y_test d) (probabilities clf model X_te) = Inr pr_auc"
    "classification_report lib (y_test d) (threshold (probabilities clf model X_te)) = Inr report"
    "metrics = with_events
         (with_importances src
            (base_metrics d accuracy precision recall f1 roc_auc pr_auc report X_tr y_tr now)
            (feature_names pre) (feature_importances clf model))
         (recent_events (addresses d) (index (X_test d)) (probabilities clf model X_te))"
  using assms unfolding fit_and_eval_def Let_def
  by (auto simp: bnd_Inr)

subsection \<open>The run on the demo split\<close>

lemma upt_lits:
  "[0..<8] = [0, 1, 2, 3, 4, 5, 6, 7]" "[0..<2] = [0, 1]"
  "[0..<10] = [0, 1, 2, 3, 4, 5, 6, 7, 8, 9]"
  by (simp_all add: upt_rec)

lemma newton1: "newton_sqrt 1 = 1"
  by (simp add: newton_sqrt_def funpow.simps numeral_eq_Suc)

lemma floor_numeral_div: "\<lfloor>numeral a / numeral b :: rat\<rfloor> = numeral a div numeral b"
  by (metis floor_divide_of_int_eq of_int_numeral)

lemma demo_fields:
  "y_train demo_data = [0, 0, 1, 1, 0, 0, 1, 1]" "y_test demo_data = [0, 1]"
  "feature_cols demo_data = [''total_sent'']" "random_state demo_data = 42"
  "index (X_test demo_data) = [4, 9]" "addresses demo_data = demo_addresses"
  "nrows (X_train demo_data) = 8" "nrows (X_test demo_data) = 2"
  "original_fraud_rate demo_data = Some (1/2)" "original_total demo_data = 10"
  "original_fraud demo_data = 5"
  by (simp_all add: demo_data_def nrows_def)

lemma demo_lib_fields:
  "fsqrt demo_library = newton_sqrt" "smote demo_library = halfway"
  "roc_auc_score demo_library = rank_auc" "average_precision_score demo_library = mean_precision"
  "classification_report demo_library yt yp = Inr ''report''"
  "train_test_split demo_library = every_fifth"
  by (simp_all add: demo_library_def)

lemma demo_base_classifier:
  "base_classifier demo_library src seed
     = midpoint_classifier (\<lambda>mid. Inr (if src = Svm_fraud then None else Some [1]))"
  by (simp add: demo_library_def)

lemma demo_accessors:
  "feature_names demo_scaler = [''total_sent'']"
  "feature_importances (midpoint_classifier imp) = imp"
  by (simp_all add: demo_scaler_def midpoint_classifier_def)

lemma demo_pre:
  "pre_fit_transform newton_sqrt [''total_sent''] (X_train demo_data)
     = Inr (demo_scaler, demo_matrix)"
  by (simp add: pre_fit_transform_def demo_data_def bnd_def nrows_def series_mean_def
      series_scale_def series_var_def dropna_def newton1 to_rows_def scale_columns_def
      standardize_def demo_scaler_def upt_lits Let_def demo_matrix_def)

lemma demo_te:
  "pre_transform (Some demo_scaler) (X_test demo_data) = Inr [ [Some (-1)], [Some (- (1/2))] ]"
  by (simp add: pre_transform_def demo_data_def bnd_def nrows_def to_rows_def scale_columns_def
      standardize_def demo_scaler_def upt_lits)

lemma demo_smote:
  "smote_fit_resample (halfway 42) demo_matrix [0, 0, 1, 1, 0, 0, 1, 1]
     = Inr (demo_matrix, [0, 0, 1, 1, 0, 0, 1, 1])"
  by (simp add: smote_fit_resample_def class_counts_def majority_def Let_def demo_matrix_def)

lemma demo_fit:
  "clf_fit (midpoint_classifier imp) demo_matrix [0, 0, 1, 1, 0, 0, 1, 1] = Inr 0"
  by (simp add: midpoint_classifier_def first_feature_mean_def dropna_def Let_def
      demo_matrix_def)

lemma demo_proba:
  "probabilities (midpoint_classifier imp) 0 [ [Some (-1)], [Some (- (1/2))] ] = [1/4, 3/8]"
  by (simp add: midpoint_classifier_def probabilities_def)

lemma demo_threshold: "threshold [1/4, 3/8] = [0, 0]"
  by (simp add: threshold_def)

lemma demo_scores:
  "accuracy_score [0, 1] [0, 0] = Inr (1/2)"
  "precision_score [0, 1] [0, 0] = Inr 0"
  "recall_score [0, 1] [0, 0] = Inr 0"
  "f1_score [0, 1] [0, 0] = Inr 0"
  "rank_auc [0, 1] [1/4, 3/8] = Inr 1"
  "mean_precision [0, 1] [1/4, 3/8] = Inr 1"
  by (simp_all add: accuracy_score_def precision_score_def recall_score_def f1_score_def
      check_binary_def bnd_def true_pos_def false_pos_def false_neg_def ratio0_def
      rank_auc_def mean_precision_def)

lemma demo_recent_events:
  "recent_events demo_addresses [4, 9] [1/4, 3/8] = Inr demo_events"
  by (simp add: recent_events_def demo_addresses_def bnd_def sort_values_def fraud_event_def
      legit_event_def demo_events_def)

lemma demo_counts:
  "int_mean [0, 0, 1, 1, 0, 0, 1, 1] = Some (1/2)"
  "sum_list [0, 0, 1, 1, 0, 0, 1, 1::int] = 4" "count_zero [0, 0, 1, 1, 0, 0, 1, 1] = 4"
  "length demo_matrix = 8"
  by (simp_all add: int_mean_def count_zero_def demo_matrix_def)

lemma demo_run:
  "fit_and_eval src demo_library demo_data (midpoint_classifier imp) now
     = Inr (with_events (with_importances src (demo_base now) [''total_sent''] (imp 0))
              (Inr demo_events),
            0, demo_scaler)"
  by (simp add: fit_and_eval_def demo_fields demo_lib_fields demo_pre bnd_def demo_te demo_smote
      demo_fit demo_proba demo_threshold demo_scores demo_recent_events base_metrics_def
      demo_counts demo_base_def demo_accessors Let_def)

lemma lower_total_sent: "lower ''total_sent'' = ''total_sent''"
  by (simp add: lower_def lower_char_def)

lemma continuous_total_sent: "continuous_like [''total_sent''] = [''total_sent'']"
  by (simp add: continuous_like_def lower_total_sent)

lemma quant10:
  "quantile [Some 1, Some 1, Some 3, Some 3, Some 1, Some 1, Some 1, Some 3, Some 3, Some (3/2)]
     (1/4) = Inr (Some 1)"
  "quantile [Some 1, Some 1, Some 3, Some 3, Some 1, Some 1, Some 1, Some 3, Some 3, Some (3/2)]
     (3/4) = Inr (Some 3)"
  by (simp_all add: quantile_def dropna_def Let_def floor_numeral_div)

text \<open>The training function splits \<open>demo_frame\<close> into \<open>demo_data\<close>.\<close>

lemma demo_train_split:
  "train_model src demo_library demo_frame False n_iter cv 42 now
     = fit_and_eval src demo_library demo_data (base_classifier demo_library src 42) now"
  by (simp add: train_model_def column_def demo_frame_def astype_int_def dropna_def trunc_int_def
      drop_column_def columns_def continuous_total_sent iqr_clip_def nrows_def quant10
      cell_sub_def cell_add_def cell_scale_def between_def isna_def cell_le_def loc_mask_def
      select_def demo_lib_fields every_fifth_def upt_lits iloc_def iloc_list_def int_mean_def
      demo_data_def demo_addresses_def bnd_def Let_def)

lemma all_legit_train:
  "train_model src demo_library all_legit random_search n_iter cv 42 now
     = Inl (ValueError ''The target y needs to have more than 1 class'')"
  by (simp add: train_model_def column_def all_legit_def demo_frame_def astype_int_def dropna_def
      trunc_int_def drop_column_def columns_def continuous_total_sent iqr_clip_def nrows_def
      quant10 cell_sub_def cell_add_def cell_scale_def between_def isna_def cell_le_def
      loc_mask_def select_def demo_lib_fields every_fifth_def upt_lits iloc_def iloc_list_def
      int_mean_def demo_addresses_def bnd_def Let_def fit_and_eval_def pre_fit_transform_def
      series_mean_def series_scale_def series_var_def newton1 to_rows_def scale_columns_def
      standardize_def pre_transform_def smote_fit_resample_def class_counts_def)


subsection \<open>Two runs on the same input\<close>









subsection \<open>Failing diagnostics\<close>


subsection \<open>The balanced fold\<close>

lemma class_counts_binary:
  assumes "set y = {0, 1}"
  shows "class_counts y = [(0, count_list y 0), (1, count_list y 1)]"
proof -
  have "sorted (remdups (sort y))" by (simp add: sorted_remdups)
  moreover have "distinct (remdups (sort y))" by simp
  moreover have "set (remdups (sort y)) = set [0, 1::int]" using assms by simp
  moreover have "sorted [0, 1::int]" "distinct [0, 1::int]" by simp_all
  ultimately have "remdups (sort y) = [0, 1]"
    by (metis sorted_distinct_set_unique)
  then show ?thesis by (simp add: class_counts_def)
qed

lemma length_make_samples: "length (make_samples sm Xc n) = n"
  by (simp add: make_samples_def)

lemma count_list_replicate:
  "count_list (replicate n x) z = (if z = x then n else 0)"
  by (induction n) auto

lemma smote_binary_unfold:
  assumes y: "set y = {0, 1}"
  shows "smote_fit_resample sm X y =
     (if length X \<noteq> length y
      then Inl (ValueError ''Found input variables with inconsistent numbers of samples'')
      else if list_ex (list_ex (\<lambda>c. c = None)) X
      then Inl (ValueError ''Input X contains NaN'')
      else if count_list y 0 < count_list y 1
      then smote_classes sm X y [(0, count_list y 1 - count_list y 0)] (X, y)
      else smote_classes sm X y [(1, count_list y 0 - count_list y 1)] (X, y))"
  by (simp add: smote_fit_resample_def class_counts_binary[OF y] majority_def Let_def)

lemma smote_classes_single:
  assumes "smote_classes sm X y [(c, n)] (X, y) = Inr (X', y')"
  shows "y' = y @ replicate n c \<and> length X' = length X + n"
  using assms by (cases "n = 0") (auto simp: Let_def length_make_samples split: if_splits)

lemma smote_binary:
  assumes res: "smote_fit_resample sm X y = Inr (X', y')" and y: "set y = {0, 1}"
  shows "count_list y' 0 = count_list y' 1 \<and> set y' = {0, 1} \<and> length X' = length y'"
proof -
  let ?c0 = "count_list y 0" and ?c1 = "count_list y 1"
  from res have len: "length X = length y"
    unfolding smote_binary_unfold[OF y] by (simp del: smote_classes.simps split: if_splits)
  show ?thesis
  proof (cases "?c0 < ?c1")
    case True
    with res len have "smote_classes sm X y [(0, ?c1 - ?c0)] (X, y) = Inr (X', y')"
      unfolding smote_binary_unfold[OF y] by (simp del: smote_classes.simps split: if_splits)
    from smote_classes_single[OF this]
    have y': "y' = y @ replicate (?c1 - ?c0) 0" and X': "length X' = length X + (?c1 - ?c0)"
      by simp_all
    have "count_list y' 0 = ?c1" "count_list y' 1 = ?c1"
      using True by (simp_all add: y' count_list_replicate)
    moreover have "set y' = {0, 1}" by (auto simp: y' y set_replicate_conv_if)
    moreover have "length X' = length y'" by (simp add: X' y' len)
    ultimately show ?thesis by simp
  next
    case False
    with res len have "smote_classes sm X y [(1, ?c0 - ?c1)] (X, y) = Inr (X', y')"
      unfolding smote_binary_unfold[OF y] by (simp del: smote_classes.simps split: if_splits)
    from smote_classes_single[OF this]
    have y': "y' = y @ replicate (?c0 - ?c1) 1" and X': "length X' = length X + (?c0 - ?c1)"
      by simp_all
    have "count_list y' 0 = ?c0" "count_list y' 1 = ?c0"
      using False by (simp_all add: y' count_list_replicate)
    moreover have "set y' = {0, 1}" by (auto simp: y' y set_replicate_conv_if)
    moreover have "length X' = length y'" by (simp add: X' y' len)
    ultimately show ?thesis by simp
  qed
qed

lemma binary_sum: "set y \<subseteq> {0, 1} \<Longrightarrow> sum_list y = int (count_list y 1)"
  by (induction y) auto

lemma binary_length: "set y \<subseteq> {0, 1::int} \<Longrightarrow> length y = count_list y 0 + count_list y 1"
  by (induction y) auto

lemma count_zero_count_list: "count_zero y = int (count_list y 0)"
  unfolding count_zero_def by (induction y) auto

lemma balanced_mean:
  assumes "count_list y 0 = count_list y 1" and "set y = {0, 1}"
  shows "int_mean y = Some (1/2)"
proof -
  have "1 \<in> set y" using assms(2) by simp
  then have "count_list y 1 \<noteq> 0" by (simp add: count_list_0_iff)
  then have pos: "0 < count_list y 1" by simp
  have "sum_list y = int (count_list y 1)" using assms(2) by (intro binary_sum) simp
  moreover have "length y = 2 * count_list y 1"
    using binary_length[of y] assms by simp
  moreover have "y \<noteq> []" using assms(2) by auto
  ultimately show ?thesis using pos by (simp add: int_mean_def)
qed

lemma dict_get_base:
  "dict_get (base_metrics d a p r f ra pa rep X y now) ''balanced_fraud_rate'' = Some (MFloat (int_mean y))"
  "dict_get (base_metrics d a p r f ra pa rep X y now) ''post_smote_fraud'' = Some (MInt (sum_list y))"
  "dict_get (base_metrics d a p r f ra pa rep X y now) ''post_smote_legit'' = Some (MInt (count_zero y))"
  by (simp_all add: dict_get_def base_metrics_def)


text \<open>
  Claim C5. When the training fold has both classes (labels 0 and 1) and the run
  returns, so that the oversampling ran to completion, the balanced fold has as many
  fraud as legitimate rows and the reported \<^verbatim>\<open>balanced_fraud_rate\<close> is exactly one
  half. The oversampler is the one modelled from the specification.
\<close>

theorem balanced_fraud_rate_is_half:
  assumes run: "fit_and_eval src lib d clf now = Inr (metrics, model, pre)"
    and both: "set (y_train d) = {0, 1}"
  shows "dict_get metrics ''balanced_fraud_rate'' = Some (MFloat (Some (1/2))) \<and>
         (\<exists>n. dict_get metrics ''post_smote_fraud'' = Some (MInt n) \<and>
              dict_get metrics ''post_smote_legit'' = Some (MInt n))"
proof -
  from run obtain X_tr0 X_te X_tr y_tr a p r f ra pa rep where
    sm: "smote_fit_resample (smote lib (random_state d)) X_tr0 (y_train d) = Inr (X_tr, y_tr)"
    and m: "metrics = with_events
         (with_importances src (base_metrics d a p r f ra pa rep X_tr y_tr now)
            (feature_names pre) (feature_importances clf model))
         (recent_events (addresses d) (index (X_test d)) (probabilities clf model X_te))"
    by (rule fit_and_eval_cases)
  from smote_binary[OF sm both] have eq: "count_list y_tr 0 = count_list y_tr 1"
    and s: "set y_tr = {0, 1}" by simp_all
  have "int_mean y_tr = Some (1/2)" by (rule balanced_mean[OF eq s])
  moreover have "sum_list y_tr = count_zero y_tr"
    using binary_sum[of y_tr] s eq by (simp add: count_zero_count_list)
  ultimately show ?thesis
    by (simp add: m dict_get_with_events dict_get_with_importances_other dict_get_base)
qed


lemma upt14: "[0..<14] = [0,1,2,3,4,5,6,7,8,9,10,11,12,13]" by (simp add: upt_rec)

lemma imb_run: "\<exists>metrics. fit_and_eval Xgboost_fraud demo_library imbalanced_data (base_classifier demo_library Xgboost_fraud 7) ''2024-01-01T00:00:00'' = Inr (metrics, 1/8, demo_scaler)"
  by (simp add: fit_and_eval_def imbalanced_data_def demo_lib_fields demo_base_classifier
      pre_fit_transform_def pre_transform_def bnd_def nrows_def series_mean_def series_scale_def
      series_var_def dropna_def newton1 to_rows_def scale_columns_def standardize_def upt14 upt_lits
      Let_def smote_fit_resample_def class_counts_def majority_def select_def halfway_def
      make_samples_def interpolate_def cell_add_def cell_sub_def cell_scale_def
      midpoint_classifier_def first_feature_mean_def probabilities_def threshold_def 
      accuracy_score_def precision_score_def recall_score_def f1_score_def
      check_binary_def true_pos_def false_pos_def false_neg_def ratio0_def
      rank_auc_def mean_precision_def demo_scaler_def)


lemma imb_both: "set (y_train imbalanced_data) = {0, 1}"
  by (auto simp: imbalanced_data_def)

theorem balanced_fraud_rate_is_half_witness:
  "set (y_train imbalanced_data) = {0, 1} \<and>
   (\<exists>metrics. fit_and_eval Xgboost_fraud demo_library imbalanced_data
        (base_classifier demo_library Xgboost_fraud 7) ''2024-01-01T00:00:00''
        = Inr (metrics, 1/8, demo_scaler) \<and>
      dict_get metrics ''balanced_fraud_rate'' = Some (MFloat (Some (1/2))) \<and>
      (\<exists>n. dict_get metrics ''post_smote_fraud'' = Some (MInt n) \<and>
           dict_get metrics ''post_smote_legit'' = Some (MInt n)))"
proof -
  from imb_run obtain metrics where
    run: "fit_and_eval Xgboost_fraud demo_library imbalanced_data
        (base_classifier demo_library Xgboost_fraud 7) ''2024-01-01T00:00:00''
        = Inr (metrics, 1/8, demo_scaler)" by blast
  from balanced_fraud_rate_is_half[OF run imb_both] run imb_both show ?thesis by blast
qed

subsection \<open>The fitted preprocessor\<close>









subsection \<open>A table without fraud\<close>

lemma threshold_binary: "set (threshold proba) \<subseteq> {0, 1}"
  by (auto simp: threshold_def)

lemma length_threshold: "length (threshold proba) = length proba"
  by (simp add: threshold_def)

lemma check_binary_ok:
  assumes "set y_true \<subseteq> {0, 1}" and "set y_pred \<subseteq> {0, 1}" and "length y_true = length y_pred"
  shows "check_binary y_true y_pred = Inr ()"
proof -
  let ?p = "remdups (y_true @ y_pred)"
  have sub: "set ?p \<subseteq> {0, 1}" using assms by auto
  have "length ?p = card (set ?p)" by (simp only: length_remdups_card_conv set_remdups)
  also have "\<dots> \<le> card {0, 1::int}" by (rule card_mono) (use sub in auto)
  finally have le: "length ?p \<le> 2" by simp
  have "1 \<in> set ?p" if "length ?p = 2"
  proof -
    from that have "card (set ?p) = card {0, 1::int}"
      by (simp only: length_remdups_card_conv[symmetric] set_remdups) simp
    with sub have "set ?p = {0, 1}" by (intro card_subset_eq) auto
    then show ?thesis by blast
  qed
  with le assms(3) show ?thesis by (auto simp: check_binary_def Let_def)
qed

lemma true_pos_zero: "set y_true \<subseteq> {0} \<Longrightarrow> true_pos y_true y_pred = 0"
  by (auto simp: true_pos_def filter_empty_conv dest!: set_zip_leftD)

lemma false_neg_zero: "set y_true \<subseteq> {0} \<Longrightarrow> false_neg y_true y_pred = 0"
  by (auto simp: false_neg_def filter_empty_conv dest!: set_zip_leftD)

lemma scores_without_fraud:
  assumes "set yt \<subseteq> {0}" and "length proba = length yt"
  shows "precision_score yt (threshold proba) = Inr 0 \<and>
         recall_score yt (threshold proba) = Inr 0 \<and>
         f1_score yt (threshold proba) = Inr 0"
proof -
  have "check_binary yt (threshold proba) = Inr ()"
    using assms threshold_binary[of proba] by (intro check_binary_ok) (auto simp: length_threshold)
  then show ?thesis
    using assms(1)
    by (simp add: precision_score_def recall_score_def f1_score_def bnd_def
        true_pos_zero false_neg_zero ratio0_def)
qed

lemma smote_single_class:
  assumes "set y \<subseteq> {0}"
  shows "\<exists>e. smote_fit_resample sm X y = Inl e"
proof -
  have "length (remdups (sort y)) = card (set y)" by (simp add: length_remdups_card_conv)
  also have "\<dots> \<le> card {0::int}" by (rule card_mono) (use assms in auto)
  finally have "length (class_counts y) \<le> 1" by (simp add: class_counts_def)
  then show ?thesis by (simp add: smote_fit_resample_def Let_def)
qed

lemma astype_int_zero:
  assumes "astype_int s = Inr y" and "set s \<subseteq> {Some 0}"
  shows "set y \<subseteq> {0}"
proof -
  have "set (dropna s) \<subseteq> {0}" using assms(2)
    by (induction s) (auto simp: dropna_def split: option.splits)
  then have "\<forall>v\<in>set (dropna s). trunc_int v = 0"
    by (auto simp: trunc_int_def)
  with assms(1) show ?thesis
    by (auto simp: astype_int_def split: if_splits)
qed

lemma set_select: "set (select m xs) \<subseteq> set xs"
  by (auto simp: select_def dest: set_zip_rightD)

lemma column_loc_mask:
  "column (loc_mask df m) c = Inr s' \<Longrightarrow> \<exists>s. column df c = Inr s \<and> s' = select m s"
  by (auto simp: column_def loc_mask_def map_of_map_snd[where f="select m"] split: option.splits)

lemma iqr_clip_column:
  assumes "iqr_clip df cs k = Inr df'" and "column df' c = Inr s'"
  shows "\<exists>s. column df c = Inr s \<and> set s' \<subseteq> set s"
proof -
  from assms(1) obtain m where "df' = loc_mask df m"
    by (auto simp: iqr_clip_def split: sum.splits)
  with assms(2) column_loc_mask[of df m c s'] obtain s where
    "column df c = Inr s" "s' = select m s" by auto
  with set_select[of m s] show ?thesis by blast
qed

lemma label_column:
  "column ((drop_column df c)\<lparr>cols := cols (drop_column df c) @ [(c, L)]\<rparr>) c = Inr L"
proof -
  have "map_of (filter (\<lambda>cs. fst cs \<noteq> c) (cols df)) c = None"
    by (auto simp: map_of_eq_None_iff)
  then show ?thesis by (simp add: column_def drop_column_def map_add_def)
qed

lemma iloc_list_subset: "iloc_list xs ps = Inr ys \<Longrightarrow> set ys \<subseteq> set xs"
  by (auto simp: iloc_list_def list_ex_iff not_le split: if_splits)

lemma fit_and_eval_single_class:
  assumes "set (y_train d) \<subseteq> {0}"
  shows "fit_and_eval src lib d clf now \<noteq> Inr r"
proof
  assume "fit_and_eval src lib d clf now = Inr r"
  then obtain X_tr0 X_tr y_tr where
    "smote_fit_resample (smote lib (random_state d)) X_tr0 (y_train d) = Inr (X_tr, y_tr)"
    by (cases r) (auto elim: fit_and_eval_cases)
  with smote_single_class[OF assms, of "smote lib (random_state d)" X_tr0] show False by auto
qed


lemma train_model_single_class:
  assumes lab: "column (num df) ''fraud_label'' = Inr label" and zero: "set label \<subseteq> {Some 0}"
  shows "train_model src lib df random_search n_iter cv seed now \<noteq> Inr r"
proof
  assume ret: "train_model src lib df random_search n_iter cv seed now = Inr r"
  let ?X = "drop_column (num df) ''fraud_label''"
  from ret lab obtain y Xy label2 y2 tr te Xtr Xte ytr yte where
    y: "astype_int label = Inr y"
    and clip: "iqr_clip (?X\<lparr>cols := cols ?X @ [(''fraud_label'', map (\<lambda>l. Some (of_int l)) y)]\<rparr>)
                 (continuous_like (columns ?X)) (3/2) = Inr Xy"
    and lab2: "column Xy ''fraud_label'' = Inr label2"
    and y2: "astype_int label2 = Inr y2"
    and ytr: "iloc_list y2 tr = Inr ytr"
    and rest: "(if \<not> random_search
         then fit_and_eval src lib
           \<lparr>X_train = Xtr, X_test = Xte, y_train = ytr, y_test = yte,
             addresses = zip (index (num df))
                   (case address df of
                      Some a \<Rightarrow> a
                    | None \<Rightarrow> replicate (nrows (num df)) (Some ''unknown'')),
             feature_cols = columns (drop_column Xy ''fraud_label''), random_state = seed,
             original_fraud_rate = int_mean y, original_total = int (length y),
             original_fraud = sum_list y\<rparr> (base_classifier lib src seed) now
         else bnd (pre_fit_transform (fsqrt lib) (columns (drop_column Xy ''fraud_label'')) Xtr)
           (\<lambda>(pre, X_tr_all).
             bnd (smote_fit_resample (smote lib seed) X_tr_all ytr) (\<lambda>(X_tr_all, y_tr_all).
             bnd (randomized_search lib (base_classifier lib src seed) n_iter cv
                    (if src = Xgboost_fraud then 42 else seed) X_tr_all y_tr_all)
               (\<lambda>(best, best_params).
             bnd (fit_and_eval src lib
           \<lparr>X_train = Xtr, X_test = Xte, y_train = ytr, y_test = yte,
             addresses = zip (index (num df))
                   (case address df of
                      Some a \<Rightarrow> a
                    | None \<Rightarrow> replicate (nrows (num df)) (Some ''unknown'')),
             feature_cols = columns (drop_column Xy ''fraud_label''), random_state = seed,
             original_fraud_rate = int_mean y, original_total = int (length y),
             original_fraud = sum_list y\<rparr> best now)
               (\<lambda>(metrics, model, preproc).
                 Inr (dict_set metrics ''best_params'' (MParams best_params), model, preproc))))))
        = Inr r"
    unfolding train_model_def Let_def by (auto simp: bnd_Inr)
  have y0: "set y \<subseteq> {0}" by (rule astype_int_zero[OF y zero])
  from iqr_clip_column[OF clip lab2] obtain s where
    "column (?X\<lparr>cols := cols ?X @ [(''fraud_label'', map (\<lambda>l. Some (of_int l)) y)]\<rparr>)
       ''fraud_label'' = Inr s" and sub: "set label2 \<subseteq> set s" by blast
  then have "s = map (\<lambda>l. Some (of_int l)) y" by (simp add: label_column)
  with y0 have "set s \<subseteq> {Some 0}" by fastforce
  with sub have "set label2 \<subseteq> {Some 0}" by blast
  from astype_int_zero[OF y2 this] iloc_list_subset[OF ytr] have tr0: "set ytr \<subseteq> {0}" by auto
  show False
  proof (cases random_search)
    case False
    let ?d = "\<lparr>X_train = Xtr, X_test = Xte, y_train = ytr, y_test = yte,
             addresses = zip (index (num df))
                   (case address df of
                      Some a \<Rightarrow> a
                    | None \<Rightarrow> replicate (nrows (num df)) (Some ''unknown'')),
             feature_cols = columns (drop_column Xy ''fraud_label''), random_state = seed,
             original_fraud_rate = int_mean y, original_total = int (length y),
             original_fraud = sum_list y\<rparr>"
    from rest False have "fit_and_eval src lib ?d (base_classifier lib src seed) now = Inr r"
      by simp
    moreover have "set (y_train ?d) \<subseteq> {0}" using tr0 by simp
    ultimately show False using fit_and_eval_single_class by blast
  next
    case True
    with rest obtain X_tr_all Xb yb where
      "smote_fit_resample (smote lib seed) X_tr_all ytr = Inr (Xb, yb)"
      by (auto simp: bnd_Inr)
    with smote_single_class[OF tr0, of "smote lib seed" X_tr_all] show False by auto
  qed
qed

text \<open>
  Claim C8, as the code has it. On a test partition without fraud rows the precision,
  the recall and the F1 score are 0 whatever the predictions, the zero denominators
  included. But a table whose label column is entirely zero never gets that far: the
  training fold has a single class, the oversampler refuses it, and the run ends with
  that error, with or without search.
\<close>

theorem zero_flag_scores_and_run:
  assumes "column (num df) ''fraud_label'' = Inr label" and "set label \<subseteq> {Some 0}"
    and "set yt \<subseteq> {0}" and "length proba = length yt"
  shows "precision_score yt (threshold proba) = Inr 0 \<and>
         recall_score yt (threshold proba) = Inr 0 \<and>
         f1_score yt (threshold proba) = Inr 0 \<and>
         (\<exists>e. train_xgb lib df random_search n_iter cv seed now = Inl e)"
proof -
  have "\<exists>e. train_xgb lib df random_search n_iter cv seed now = Inl e"
    using train_model_single_class[OF assms(1,2), of Xgboost_fraud lib random_search n_iter cv seed now]
    by (cases "train_xgb lib df random_search n_iter cv seed now") (auto simp: train_xgb_def)
  with scores_without_fraud[OF assms(3,4)] show ?thesis by simp
qed


theorem zero_flag_scores_and_run_witness:
  "column (num all_legit) ''fraud_label''
     = Inr [Some 0, Some 0, Some 0, Some 0, Some 0, Some 0, Some 0, Some 0, Some 0, Some 0] \<and>
   set [Some 0, Some 0, Some 0, Some 0, Some 0, Some 0, Some 0, Some 0, Some 0, Some (0::rat)]
     \<subseteq> {Some 0} \<and>
   set [0, 0::int] \<subseteq> {0} \<and> length [1/4, 3/8::rat] = length [0, 0::int] \<and>
   precision_score [0, 0] (threshold [1/4, 3/8]) = Inr 0 \<and>
   recall_score [0, 0] (threshold [1/4, 3/8]) = Inr 0 \<and>
   f1_score [0, 0] (threshold [1/4, 3/8]) = Inr 0 \<and>
   (\<exists>e. train_xgb demo_library all_legit False 20 5 42 ''2024-01-01T00:00:00'' = Inl e)"
proof -
  have a: "column (num all_legit) ''fraud_label''
     = Inr [Some 0, Some 0, Some 0, Some 0, Some 0, Some 0, Some 0, Some 0, Some 0, Some 0]"
    by (simp add: column_def all_legit_def)
  have b: "set [Some 0, Some 0, Some 0, Some 0, Some 0, Some 0, Some 0, Some 0, Some 0,
                Some (0::rat)] \<subseteq> {Some 0}" by simp
  have c: "set [0, 0::int] \<subseteq> {0}" by simp
  have d: "length [1/4, 3/8::rat] = length [0, 0::int]" by simp
  from zero_flag_scores_and_run[OF a b c d, of demo_library False 20 5 42 "''2024-01-01T00:00:00''"]
    a b c d show ?thesis by blast
qed

text \<open>
  The claim as written fails on \<open>all_legit\<close>: the run returns no scores, it ends with
  the oversampler's error.
\<close>

theorem zero_flag_run_counterexample:
  "train_xgb demo_library all_legit False 20 5 42 ''2024-01-01T00:00:00''
     = Inl (ValueError ''The target y needs to have more than 1 class'')"
  by (simp add: train_xgb_def all_legit_train)

subsection \<open>Recent events\<close>

lemma foldl_append_map: "foldl (\<lambda>evs row. evs @ [f row]) acc xs = acc @ map f xs"
  by (induction xs arbitrary: acc) auto

lemma length_loc_addresses:
  "loc_addresses addrs idx = Inr as \<Longrightarrow> length as = length idx"
  by (induction idx arbitrary: as) (auto simp: bnd_Inr split: option.splits)

lemma recent_events_Inr:
  assumes "loc_addresses addrs idx = Inr addr_test" and "length proba = length idx"
  shows "recent_events addrs idx proba =
     Inr (map fraud_event (take 10 (sort_values False (zip addr_test proba))) @
          map legit_event (take 10 (sort_values True (zip addr_test proba))))"
  using assms by (simp add: recent_events_def bnd_def Let_def foldl_append_map)

lemma mset_sort_values: "mset (sort_values ascending rs) = mset rs"
  by (simp add: sort_values_def)

lemma length_sort_values: "length (sort_values ascending rs) = length rs"
  by (simp add: sort_values_def)

lemma sorted_sort_values_ascending:
  "sorted_wrt (\<lambda>a b. snd a \<le> snd b) (sort_values True rs)"
  using sorted_sort_key[of snd rs] by (simp add: sort_values_def sorted_map)

lemma sorted_sort_values_descending:
  "sorted_wrt (\<lambda>a b. snd b \<le> snd a) (sort_values False rs)"
  using sorted_sort_key[of snd "rev rs"] by (simp add: sort_values_def sorted_map sorted_wrt_rev)

lemma length_pre_transform:
  "pre_transform pre X = Inr X_te \<Longrightarrow> length X_te = nrows X \<and> nrows X \<noteq> 0"
  by (auto simp: pre_transform_def bnd_Inr to_rows_def split: option.splits if_splits)

lemma length_probabilities: "length (probabilities clf model X) = length X"
  by (simp add: probabilities_def)

text \<open>What a run that returns stores as its recent events.\<close>

lemma run_recent_events:
  assumes run: "fit_and_eval src lib d clf now = Inr (metrics, model, pre)"
    and addr: "loc_addresses (addresses d) (index (X_test d)) = Inr addr_test"
  obtains X_te where
    "pre_transform (Some pre) (X_test d) = Inr X_te"
    "length (zip addr_test (probabilities clf model X_te)) = nrows (X_test d)"
    "nrows (X_test d) \<noteq> 0"
    "dict_get metrics ''recent_events'' = Some (MEvents
       (map fraud_event (take 10 (sort_values False (zip addr_test (probabilities clf model X_te)))) @
        map legit_event (take 10 (sort_values True (zip addr_test (probabilities clf model X_te))))))"
proof -
  from run obtain X_tr0 X_te X_tr y_tr a p r f ra pa rep where
    te: "pre_transform (Some pre) (X_test d) = Inr X_te"
    and m: "metrics = with_events
         (with_importances src (base_metrics d a p r f ra pa rep X_tr y_tr now)
            (feature_names pre) (feature_importances clf model))
         (recent_events (addresses d) (index (X_test d)) (probabilities clf model X_te))"
    by (rule fit_and_eval_cases)
  from length_pre_transform[OF te] have n: "length X_te = nrows (X_test d)" "nrows (X_test d) \<noteq> 0"
    by simp_all
  have lp: "length (probabilities clf model X_te) = length (index (X_test d))"
    using n by (simp add: length_probabilities nrows_def)
  have "length (zip addr_test (probabilities clf model X_te)) = nrows (X_test d)"
    using length_loc_addresses[OF addr] lp by (simp add: nrows_def)
  moreover have "dict_get metrics ''recent_events'' = Some (MEvents
       (map fraud_event (take 10 (sort_values False (zip addr_test (probabilities clf model X_te)))) @
        map legit_event (take 10 (sort_values True (zip addr_test (probabilities clf model X_te))))))"
    by (simp add: m dict_get_with_events recent_events_Inr[OF addr lp])
  ultimately show ?thesis using te n that by blast
qed

text \<open>
  Claim C9, as the code has it. When the run returns and the test addresses are found,
  the recent events are: for the \<open>min 10 n\<close> test rows of highest fraud probability, in
  descending order, an event with status \<open>fraud\<close> and the probability as confidence,
  whether or not the probability reaches one half; then for the \<open>min 10 n\<close> rows of
  lowest probability, in ascending order, an event with status \<open>legitimate\<close> and one
  minus the probability as confidence. Every event carries the first 12 characters of
  the address and the time \<open>just now\<close> (\<open>fraud_event\<close>, \<open>legit_event\<close>).
\<close>

theorem recent_events_top_and_bottom:
  assumes run: "fit_and_eval src lib d clf now = Inr (metrics, model, pre)"
    and addr: "loc_addresses (addresses d) (index (X_test d)) = Inr addr_test"
  shows "\<exists>X_te top_frauds rest_frauds top_legits rest_legits.
      pre_transform (Some pre) (X_test d) = Inr X_te \<and>
      mset (top_frauds @ rest_frauds) = mset (zip addr_test (probabilities clf model X_te)) \<and>
      mset (top_legits @ rest_legits) = mset (zip addr_test (probabilities clf model X_te)) \<and>
      length top_frauds = min 10 (nrows (X_test d)) \<and>
      length top_legits = min 10 (nrows (X_test d)) \<and>
      sorted_wrt (\<lambda>a b. snd b \<le> snd a) (top_frauds @ rest_frauds) \<and>
      sorted_wrt (\<lambda>a b. snd a \<le> snd b) (top_legits @ rest_legits) \<and>
      dict_get metrics ''recent_events''
        = Some (MEvents (map fraud_event top_frauds @ map legit_event top_legits))"
proof -
  from run addr obtain X_te where
    te: "pre_transform (Some pre) (X_test d) = Inr X_te"
    and len: "length (zip addr_test (probabilities clf model X_te)) = nrows (X_test d)"
    and ev: "dict_get metrics ''recent_events'' = Some (MEvents
       (map fraud_event (take 10 (sort_values False (zip addr_test (probabilities clf model X_te)))) @
        map legit_event (take 10 (sort_values True (zip addr_test (probabilities clf model X_te))))))"
    by (rule run_recent_events)
  let ?rows = "zip addr_test (probabilities clf model X_te)"
  let ?D = "sort_values False ?rows" and ?A = "sort_values True ?rows"
  have "mset (take 10 ?D @ drop 10 ?D) = mset ?rows" "mset (take 10 ?A @ drop 10 ?A) = mset ?rows"
    by (simp_all add: mset_sort_values)
  moreover have "length (take 10 ?D) = min 10 (nrows (X_test d))"
    "length (take 10 ?A) = min 10 (nrows (X_test d))"
    using len by (simp_all add: length_sort_values min.commute)
  moreover have "sorted_wrt (\<lambda>a b. snd b \<le> snd a) (take 10 ?D @ drop 10 ?D)"
    "sorted_wrt (\<lambda>a b. snd a \<le> snd b) (take 10 ?A @ drop 10 ?A)"
    by (simp_all add: sorted_sort_values_ascending sorted_sort_values_descending)
  ultimately show ?thesis using te ev by blast
qed


lemma demo_loc:
  "loc_addresses (addresses demo_data) (index (X_test demo_data))
     = Inr [''0xeeee0000000000000000'', ''0x44440000000000000000'']"
  by (simp add: demo_fields demo_addresses_def bnd_def)



text \<open>
  The claim as written fails on \<open>demo_frame\<close>: the test partition has two rows, both
  with a fraud probability below one half (so both predicted legitimate), and the list
  has four events, the first two with status \<open>fraud\<close>.
\<close>

theorem recent_events_below_threshold_counterexample:
  "map_sum id (\<lambda>r. dict_get (fst r) ''recent_events'')
     (train_xgb demo_library demo_frame False 20 5 42 ''2024-01-01T00:00:00'')
   = Inr (Some (MEvents
       [\<lparr>ev_address = ''0x4444000000'', ev_status = ''fraud'',
           ev_confidence = 3 / 8, ev_time = ''just now''\<rparr>,
        \<lparr>ev_address = ''0xeeee000000'', ev_status = ''fraud'',
           ev_confidence = 1 / 4, ev_time = ''just now''\<rparr>,
        \<lparr>ev_address = ''0xeeee000000'', ev_status = ''legitimate'',
           ev_confidence = 3 / 4, ev_time = ''just now''\<rparr>,
        \<lparr>ev_address = ''0x4444000000'', ev_status = ''legitimate'',
           ev_confidence = 5 / 8, ev_time = ''just now''\<rparr>]))"
  by (simp add: train_xgb_def demo_train_split demo_base_classifier demo_run
      dict_get_with_events demo_events_def)



theorem recent_events_top_and_bottom_witness:
  "\<exists>metrics.
     fit_and_eval Xgboost_fraud demo_library demo_data
       (base_classifier demo_library Xgboost_fraud 42) ''2024-01-01T00:00:00''
       = Inr (metrics, 0, demo_scaler) \<and>
     loc_addresses (addresses demo_data) (index (X_test demo_data))
       = Inr [''0xeeee0000000000000000'', ''0x44440000000000000000''] \<and>
     (\<exists>X_te top_frauds rest_frauds top_legits rest_legits.
        pre_transform (Some demo_scaler) (X_test demo_data) = Inr X_te \<and>
        mset (top_frauds @ rest_frauds)
          = mset (zip [''0xeeee0000000000000000'', ''0x44440000000000000000'']
                    (probabilities (base_classifier demo_library Xgboost_fraud 42) 0 X_te)) \<and>
        mset (top_legits @ rest_legits)
          = mset (zip [''0xeeee0000000000000000'', ''0x44440000000000000000'']
                    (probabilities (base_classifier demo_library Xgboost_fraud 42) 0 X_te)) \<and>
        length top_frauds = min 10 (nrows (X_test demo_data)) \<and>
        length top_legits = min 10 (nrows (X_test demo_data)) \<and>
        sorted_wrt (\<lambda>a b. snd b \<le> snd a) (top_frauds @ rest_frauds) \<and>
        sorted_wrt (\<lambda>a b. snd a \<le> snd b) (top_legits @ rest_legits) \<and>
        dict_get metrics ''recent_events''
          = Some (MEvents (map fraud_event top_frauds @ map legit_event top_legits)))"
proof -
  obtain metrics where run:
    "fit_and_eval Xgboost_fraud demo_library demo_data
        (base_classifier demo_library Xgboost_fraud 42) ''2024-01-01T00:00:00''
        = Inr (metrics, 0, demo_scaler)"
    by (simp add: demo_base_classifier demo_run)
  from recent_events_top_and_bottom[OF run demo_loc] run demo_loc show ?thesis by blast
qed








subsection \<open>The training request\<close>

text \<open>
  Claim C1, as the code has it. A family name that is not, in any letter case,
  \<open>svm\<close>, \<open>random_forest\<close> or \<open>neural_network\<close> is not rejected: the tables are
  loaded, the features engineered, the gradient-boosted-trees trainer is run, and its
  record is answered with \<open>used_model = xgboost\<close>. The only errors are those of the
  loader, of the feature engineering and of the trainer.
\<close>

theorem unknown_family_served_by_xgb:
  assumes "lower m \<notin> {''svm'', ''random_forest'', ''neural_network''}"
  shows "train_endpoint bk transactions_csv features_csv (Some m) no_tune seed =
     (case load_and_prepare bk transactions_csv features_csv of
        Inl e \<Rightarrow> ([Load_and_prepare], Inl e)
      | Inr df \<Rightarrow>
          (case engineer_features bk df of
             Inl e \<Rightarrow> ([Load_and_prepare, Engineer_features], Inl e)
           | Inr df' \<Rightarrow>
               ([Load_and_prepare, Engineer_features, Train_xgb],
                used ''xgboost'' (xgb bk df' (no_tune \<noteq> Some True) seed))))"
  using assms
  by (cases no_tune) (auto simp: train_endpoint_def Let_def split: sum.splits)

lemma lower_bogus: "lower ''bogus'' = ''bogus''"
  by (simp add: lower_def lower_char_def)

lemma demo_endpoint:
  "train_endpoint demo_backend demo_frame demo_frame (Some ''bogus'') (Some True) 42 =
     ([Load_and_prepare, Engineer_features, Train_xgb],
      Inr (dict_set
             (with_events
                (with_importances Xgboost_fraud (demo_base ''2024-01-01T00:00:00'')
                   [''total_sent''] (Inr (Some [1])))
                (Inr demo_events))
             ''used_model'' (MStr ''xgboost'')))"
proof -
  have l: "load_and_prepare demo_backend demo_frame demo_frame = Inr demo_frame"
    by (simp add: demo_backend_def demo_frame_def columns_def)
  have e: "engineer_features demo_backend demo_frame = Inr demo_frame"
    by (simp add: demo_backend_def)
  have x: "xgb demo_backend demo_frame False 42 =
      Inr (with_events
                (with_importances Xgboost_fraud (demo_base ''2024-01-01T00:00:00'')
                   [''total_sent''] (Inr (Some [1])))
                (Inr demo_events))"
    by (simp add: demo_backend_def train_xgb_def demo_train_split demo_base_classifier demo_run)
  show ?thesis
    by (simp add: train_endpoint_def l e x lower_bogus used_def bnd_def)
qed

text \<open>
  The claim as written fails: the request for the family \<open>bogus\<close> is parsed, trained
  and answered as a gradient-boosted-trees run.
\<close>

theorem unknown_family_not_rejected_counterexample:
  "fst (train_endpoint demo_backend demo_frame demo_frame (Some ''bogus'') (Some True) 42)
     = [Load_and_prepare, Engineer_features, Train_xgb] \<and>
   map_sum id (\<lambda>metrics. dict_get metrics ''used_model'')
     (snd (train_endpoint demo_backend demo_frame demo_frame (Some ''bogus'') (Some True) 42))
     = Inr (Some (MStr ''xgboost''))"
  by (simp add: demo_endpoint dict_get_dict_set)

theorem unknown_family_served_by_xgb_witness:
  "lower ''bogus'' \<notin> {''svm'', ''random_forest'', ''neural_network''} \<and>
   train_endpoint demo_backend demo_frame demo_frame (Some ''bogus'') (Some True) 42 =
     (case load_and_prepare demo_backend demo_frame demo_frame of
        Inl e \<Rightarrow> ([Load_and_prepare], Inl e)
      | Inr df \<Rightarrow>
          (case engineer_features demo_backend df of
             Inl e \<Rightarrow> ([Load_and_prepare, Engineer_features], Inl e)
           | Inr df' \<Rightarrow>
               ([Load_and_prepare, Engineer_features, Train_xgb],
                used ''xgboost'' (xgb demo_backend df' (Some True \<noteq> Some True) 42))))"
proof -
  have h: "lower ''bogus'' \<notin> {''svm'', ''random_forest'', ''neural_network''}"
    by (simp add: lower_bogus)
  from unknown_family_served_by_xgb[OF h, of demo_backend demo_frame demo_frame "Some True" 42] h show ?thesis by blast
qed

end
